theory Spec2Isabelle
  imports Complex_Main
begin

section \<open>JavaScript values used by the services\<close>

text \<open>
  Counts, delays and HTTP status codes are non-negative integers (\<open>nat\<close>); clock readings
  are \<open>int\<close>. Strings are lists of characters and \<open>.length\<close> is \<open>length\<close>.
  An optional property (\<open>x?: T\<close>) is an \<open>option\<close>, \<open>None\<close> being \<open>undefined\<close>.
\<close>

text \<open>The operator \<open>||\<close> on an optional number: \<open>undefined\<close> and \<open>0\<close> are falsy.\<close>

definition or_number :: "nat option \<Rightarrow> nat \<Rightarrow> nat" where
  "or_number x d = (case x of None \<Rightarrow> d | Some n \<Rightarrow> if n = 0 then d else n)"

text \<open>The operator \<open>||\<close> on an optional string: \<open>undefined\<close> and the empty string are falsy.\<close>

definition or_string :: "string option \<Rightarrow> string \<Rightarrow> string" where
  "or_string x d = (case x of None \<Rightarrow> d | Some s \<Rightarrow> if s = [] then d else s)"

text \<open>A number inside a template literal: its decimal digits.\<close>

fun string_of_nat :: "nat \<Rightarrow> string" where
  "string_of_nat n =
     (if n < 10 then [''0123456789'' ! n]
      else string_of_nat (n div 10) @ [''0123456789'' ! (n mod 10)])"

declare string_of_nat.simps [simp del]

section \<open>openrouter.service.ts\<close>

subsection \<open>Types\<close>

text \<open>
  The five model parameters. In the state of the client and in the payload a parameter is a
  number or \<open>undefined\<close> (\<open>ModelParameters\<close>). In the object given to \<open>setModel\<close> a
  property is absent, or present with a number or with \<open>undefined\<close>
  (\<open>ModelParameters_argument\<close>).
\<close>

datatype 'a property = Absent | Present "'a option"

record ('r, 'n) model_parameters =
  temperature :: 'r
  top_p :: 'r
  frequency_penalty :: 'r
  presence_penalty :: 'r
  max_tokens :: 'n

type_synonym ModelParameters = "(rat option, nat option) model_parameters"

type_synonym ModelParameters_argument = "(rat property, nat property) model_parameters"

datatype Role = system | user | assistant

record ChatMessage =
  role :: Role
  content :: string

datatype ResponseFormat = json_object

record RequestPayload =
  payload_model :: string
  messages :: "ChatMessage list"
  parameters :: ModelParameters
  response_format :: "ResponseFormat option"

record Choice =
  message_role :: string
  message_content :: string
  finish_reason :: string

record Usage =
  prompt_tokens :: nat
  completion_tokens :: nat
  total_tokens :: nat

record ApiResponse =
  response_id :: string
  choices :: "Choice list"
  usage :: "Usage option"
  response_model :: string

record OpenRouterConfig =
  cfg_apiKey :: "string option"
  cfg_baseUrl :: "string option"
  cfg_timeout :: "nat option"
  cfg_maxRetries :: "nat option"
  cfg_retryDelay :: "nat option"

datatype OpenRouterErrorCode =
    MISSING_API_KEY
  | MISSING_USER_MESSAGE
  | HTTP_ERROR
  | AUTHENTICATION_ERROR
  | RATE_LIMIT_ERROR
  | TIMEOUT_ERROR
  | NETWORK_ERROR
  | REQUEST_FAILED
  | INVALID_RESPONSE
  | EMPTY_RESPONSE
  | JSON_PARSE_ERROR
  | UNKNOWN_ERROR

text \<open>The string value of each member of the enum.\<close>

fun code_value :: "OpenRouterErrorCode \<Rightarrow> string" where
  "code_value MISSING_API_KEY = ''MISSING_API_KEY''"
| "code_value MISSING_USER_MESSAGE = ''MISSING_USER_MESSAGE''"
| "code_value HTTP_ERROR = ''HTTP_ERROR''"
| "code_value AUTHENTICATION_ERROR = ''AUTHENTICATION_ERROR''"
| "code_value RATE_LIMIT_ERROR = ''RATE_LIMIT_ERROR''"
| "code_value TIMEOUT_ERROR = ''TIMEOUT_ERROR''"
| "code_value NETWORK_ERROR = ''NETWORK_ERROR''"
| "code_value REQUEST_FAILED = ''REQUEST_FAILED''"
| "code_value INVALID_RESPONSE = ''INVALID_RESPONSE''"
| "code_value EMPTY_RESPONSE = ''EMPTY_RESPONSE''"
| "code_value JSON_PARSE_ERROR = ''JSON_PARSE_ERROR''"
| "code_value UNKNOWN_ERROR = ''UNKNOWN_ERROR''"

text \<open>
  A thrown value. \<open>OpenRouterError message code statusCode retryable\<close> is an instance of
  the class \<open>OpenRouterError\<close> (its \<open>name\<close> is \<open>OpenRouterError\<close>; the \<open>originalError\<close>
  it carries is never read and is left out). \<open>JsError name message\<close> is any other instance
  of \<open>Error\<close>: \<open>Error\<close> itself, \<open>TypeError\<close>, \<open>SyntaxError\<close>, the \<open>AbortError\<close> of an
  aborted fetch. \<open>NotAnError\<close> is a thrown value that is not an instance of \<open>Error\<close>.
\<close>

datatype js_error =
    OpenRouterError string OpenRouterErrorCode "nat option" bool
  | JsError string string
  | NotAnError

fun instanceof_Error :: "js_error \<Rightarrow> bool" where
  "instanceof_Error NotAnError = False"
| "instanceof_Error _ = True"

fun instanceof_OpenRouterError :: "js_error \<Rightarrow> bool" where
  "instanceof_OpenRouterError (OpenRouterError m c s r) = True"
| "instanceof_OpenRouterError _ = False"

fun instanceof_TypeError :: "js_error \<Rightarrow> bool" where
  "instanceof_TypeError (JsError n m) = (n = ''TypeError'')"
| "instanceof_TypeError _ = False"

fun name_of :: "js_error \<Rightarrow> string" where
  "name_of (OpenRouterError m c s r) = ''OpenRouterError''"
| "name_of (JsError n m) = n"
| "name_of NotAnError = []"

fun message_of :: "js_error \<Rightarrow> string" where
  "message_of (OpenRouterError m c s r) = m"
| "message_of (JsError n m) = m"
| "message_of NotAnError = []"

fun code_of :: "js_error \<Rightarrow> OpenRouterErrorCode option" where
  "code_of (OpenRouterError m c s r) = Some c"
| "code_of _ = None"

fun retryable_of :: "js_error \<Rightarrow> bool" where
  "retryable_of (OpenRouterError m c s r) = r"
| "retryable_of _ = False"

record RequestMetadata =
  md_model :: string
  requestStartTime :: int
  requestEndTime :: "int option"
  duration :: "int option"
  promptTokens :: "nat option"
  completionTokens :: "nat option"
  totalTokens :: "nat option"
  md_attempt :: nat
  success :: bool
  errorCode :: "OpenRouterErrorCode option"
  errorMessage :: "string option"

record OpenRouterService =
  apiKey :: string
  baseUrl :: string
  timeout :: nat
  maxRetries :: nat
  retryDelay :: nat
  currentSystemMessage :: string
  currentUserMessage :: string
  currentResponseFormat :: "ResponseFormat option"
  currentModelName :: string
  currentModelParameters :: ModelParameters
  lastRequestMetadata :: "RequestMetadata option"

subsection \<open>Construction and setters\<close>

text \<open>
  \<open>env_key\<close> is \<open>import.meta.env.OPENROUTER_API_KEY\<close>. The constructor throws
  \<open>MISSING_API_KEY\<close> when neither the configuration nor the environment has a key
  (a missing key and an empty one are both falsy).
\<close>

definition new_OpenRouterService ::
  "string option \<Rightarrow> OpenRouterConfig \<Rightarrow> js_error + OpenRouterService" where
  "new_OpenRouterService env_key config =
     (let key = or_string (cfg_apiKey config) (or_string env_key []) in
      if key = [] then
        Inl (OpenRouterError
          ''OpenRouter API key is required. Provide it via config or OPENROUTER_API_KEY environment variable.''
          MISSING_API_KEY None False)
      else
        Inr \<lparr> apiKey = key,
              baseUrl = or_string (cfg_baseUrl config) ''https://openrouter.ai/api/v1'',
              timeout = or_number (cfg_timeout config) 60000,
              maxRetries = or_number (cfg_maxRetries config) 3,
              retryDelay = or_number (cfg_retryDelay config) 1000,
              currentSystemMessage = [],
              currentUserMessage = [],
              currentResponseFormat = None,
              currentModelName = ''gpt-4o-mini'',
              currentModelParameters =
                \<lparr> temperature = Some (7 / 10), top_p = Some 1, frequency_penalty = Some 0,
                  presence_penalty = Some 0, max_tokens = Some 4096 \<rparr>,
              lastRequestMetadata = None \<rparr>)"

definition setSystemMessage :: "string \<Rightarrow> OpenRouterService \<Rightarrow> OpenRouterService" where
  "setSystemMessage message svc = svc\<lparr>currentSystemMessage := message\<rparr>"

definition setUserMessage :: "string \<Rightarrow> OpenRouterService \<Rightarrow> OpenRouterService" where
  "setUserMessage message svc = svc\<lparr>currentUserMessage := message\<rparr>"

definition enableJsonMode :: "OpenRouterService \<Rightarrow> OpenRouterService" where
  "enableJsonMode svc = svc\<lparr>currentResponseFormat := Some json_object\<rparr>"

definition disableJsonMode :: "OpenRouterService \<Rightarrow> OpenRouterService" where
  "disableJsonMode svc = svc\<lparr>currentResponseFormat := None\<rparr>"

text \<open>
  The object spread \<open>{...a, ...b}\<close>: a property present in \<open>b\<close> wins, also when its value
  is \<open>undefined\<close>.
\<close>

fun spread :: "'a option \<Rightarrow> 'a property \<Rightarrow> 'a option" where
  "spread a Absent = a"
| "spread a (Present v) = v"

definition setModel ::
  "string \<Rightarrow> ModelParameters_argument \<Rightarrow> OpenRouterService \<Rightarrow> OpenRouterService" where
  "setModel name ps svc =
     (let cur = currentModelParameters svc in
      svc\<lparr> currentModelName := name,
           currentModelParameters :=
             \<lparr> temperature = spread (temperature cur) (temperature ps),
               top_p = spread (top_p cur) (top_p ps),
               frequency_penalty = spread (frequency_penalty cur) (frequency_penalty ps),
               presence_penalty = spread (presence_penalty cur) (presence_penalty ps),
               max_tokens = spread (max_tokens cur) (max_tokens ps) \<rparr> \<rparr>)"

definition getLastRequestMetadata :: "OpenRouterService \<Rightarrow> RequestMetadata option" where
  "getLastRequestMetadata svc = lastRequestMetadata svc"

definition buildRequestPayload :: "OpenRouterService \<Rightarrow> string \<Rightarrow> RequestPayload" where
  "buildRequestPayload svc userMessage =
     \<lparr> payload_model = currentModelName svc,
       messages =
         (if currentSystemMessage svc \<noteq> []
          then [\<lparr>role = system, content = currentSystemMessage svc\<rparr>] else [])
         @ [\<lparr>role = user, content = userMessage\<rparr>],
       parameters = currentModelParameters svc,
       response_format = currentResponseFormat svc \<rparr>"


subsection \<open>The network\<close>

text \<open>
  What \<open>await response.json()\<close> gives for the body of a response: a rejection (the body
  is not JSON, a \<open>SyntaxError\<close> with the given message), the JSON value \<open>null\<close>, or any
  other JSON value. A value is read in two ways by the client: on a failed request as
  \<open>errorData\<close>, of which only \<open>errorData.error?.message\<close> is used (the first argument,
  \<open>None\<close> when that property is absent), and on a successful one through the interface
  \<open>ApiResponse\<close> (the second argument).
\<close>

datatype response_body =
    Body_not_json string
  | Body_null
  | Body_json "string option" ApiResponse

record Response =
  status :: nat
  statusText :: string
  body :: response_body

text \<open>\<open>response.ok\<close> of the Fetch API: the status is in the range 200 to 299.\<close>

definition ok :: "Response \<Rightarrow> bool" where
  "ok response = (200 \<le> status response \<and> status response \<le> 299)"

text \<open>
  What one call of \<open>fetch\<close> does: the abort signal fires first (the per-attempt timer of
  \<open>timeout\<close> ms ran out; \<open>fetch\<close> rejects with an error named \<open>AbortError\<close>), the
  transport fails (\<open>fetch\<close> rejects with a \<open>TypeError\<close>), or a response arrives.
  The network is a function from the payload and the number of the attempt to the outcome.
\<close>

datatype fetch_outcome =
    Fetch_aborted string
  | Fetch_failed string
  | Fetch_response Response

type_synonym network = "RequestPayload \<Rightarrow> nat \<Rightarrow> fetch_outcome"

text \<open>What the client does to the outside, in order: a request sent, a sleep of so many ms.\<close>

datatype event = Fetch nat | Sleep nat

subsection \<open>executeRequest\<close>

text \<open>The status of a failed response decides the code and the retryable flag (lines 410-421).\<close>

definition classify_status :: "nat \<Rightarrow> OpenRouterErrorCode \<times> bool" where
  "classify_status st =
     (if st = 401 \<or> st = 403 then (AUTHENTICATION_ERROR, False)
      else if st = 429 then (RATE_LIMIT_ERROR, True)
      else if st \<ge> 500 then (HTTP_ERROR, True)
      else (HTTP_ERROR, False))"

text \<open>
  \<open>errorData = await response.json().catch(() => ({}))\<close>: a body that is not JSON
  becomes the empty object, whose \<open>error?.message\<close> is \<open>undefined\<close>; \<open>null\<close> stays \<open>null\<close>.
\<close>

datatype error_data = Data_null | Data_value "string option"

fun errorData_of :: "response_body \<Rightarrow> error_data" where
  "errorData_of (Body_not_json m) = Data_value None"
| "errorData_of Body_null = Data_null"
| "errorData_of (Body_json m api) = Data_value m"

text \<open>
  The body of the \<open>try\<close> of one attempt (lines 379-434): the value thrown, or the data
  returned (\<open>None\<close> is a successful response whose body is \<open>null\<close>). Reading
  \<open>errorData.error\<close> of \<open>null\<close> throws a \<open>TypeError\<close> (the text of its message
  depends on the engine).
\<close>

definition try_attempt :: "fetch_outcome \<Rightarrow> js_error + ApiResponse option" where
  "try_attempt out =
     (case out of
        Fetch_aborted m \<Rightarrow> Inl (JsError ''AbortError'' m)
      | Fetch_failed m \<Rightarrow> Inl (JsError ''TypeError'' m)
      | Fetch_response response \<Rightarrow>
          if \<not> ok response then
            (case errorData_of (body response) of
               Data_null \<Rightarrow> Inl (JsError ''TypeError'' ''Cannot read properties of null'')
             | Data_value m \<Rightarrow>
                 Inl (OpenRouterError
                   (or_string m
                      (''HTTP '' @ string_of_nat (status response) @ '': '' @ statusText response))
                   (fst (classify_status (status response)))
                   (Some (status response))
                   (snd (classify_status (status response)))))
          else
            (case body response of
               Body_not_json m \<Rightarrow> Inl (JsError ''SyntaxError'' m)
             | Body_null \<Rightarrow> Inr None
             | Body_json m data \<Rightarrow> Inr (Some data)))"

text \<open>
  The \<open>catch\<close> of one attempt (lines 435-509): sleep and go on to the next attempt, or
  throw.
\<close>

datatype catch_result = Continue nat | Throw js_error

definition catch_attempt :: "OpenRouterService \<Rightarrow> nat \<Rightarrow> js_error \<Rightarrow> catch_result" where
  "catch_attempt svc attempt error =
     (if instanceof_Error error \<and> name_of error = ''AbortError'' then
        (if attempt < maxRetries svc then Continue (retryDelay svc * 2 ^ attempt)
         else Throw (OpenRouterError
                (''Request timed out after '' @ string_of_nat (timeout svc) @ ''ms'')
                TIMEOUT_ERROR None True))
      else if instanceof_TypeError error then
        (if attempt < maxRetries svc then Continue (retryDelay svc * 2 ^ attempt)
         else Throw (OpenRouterError
                (''Network error: '' @ message_of error) NETWORK_ERROR None True))
      else if instanceof_OpenRouterError error \<and> \<not> retryable_of error then Throw error
      else if attempt < maxRetries svc \<and> instanceof_OpenRouterError error \<and> retryable_of error
        then Continue (retryDelay svc * 2 ^ attempt)
      else if instanceof_OpenRouterError error then Throw error
      else Throw (OpenRouterError
             (''Request failed after '' @ string_of_nat (maxRetries svc + 1) @ '' attempts: ''
                @ (if instanceof_Error error then message_of error else ''Unknown error''))
             REQUEST_FAILED None False))"

text \<open>
  The loop \<open>for (let attempt = 0; attempt <= this.maxRetries; attempt++)\<close>, from a given
  attempt on, with the trace of what it did. The \<open>throw\<close> after the loop is the last branch.
\<close>

function executeRequest_from ::
  "OpenRouterService \<Rightarrow> (nat \<Rightarrow> fetch_outcome) \<Rightarrow> nat \<Rightarrow> (js_error + ApiResponse option) \<times> event list"
where
  "executeRequest_from svc net attempt =
     (if attempt \<le> maxRetries svc then
        (case try_attempt (net attempt) of
           Inr data \<Rightarrow> (Inr data, [Fetch attempt])
         | Inl error \<Rightarrow>
             (case catch_attempt svc attempt error of
                Throw e \<Rightarrow> (Inl e, [Fetch attempt])
              | Continue delay \<Rightarrow>
                  (fst (executeRequest_from svc net (Suc attempt)),
                   Fetch attempt # Sleep delay # snd (executeRequest_from svc net (Suc attempt)))))
      else (Inl (OpenRouterError ''Request failed: Unknown error'' UNKNOWN_ERROR None False), []))"
  by pat_completeness auto
termination
  by (relation "measure (\<lambda>(svc, net, attempt). Suc (maxRetries svc) - attempt)") auto

declare executeRequest_from.simps [simp del]

definition executeRequest ::
  "OpenRouterService \<Rightarrow> network \<Rightarrow> RequestPayload \<Rightarrow> (js_error + ApiResponse option) \<times> event list"
where
  "executeRequest svc net payload = executeRequest_from svc (net payload) 0"

subsection \<open>parseResponse and sendChatMessage\<close>

text \<open>
  In JSON mode the content goes through \<open>JSON.parse\<close>, a parameter of the model: it gives
  the decoded value or the message of the \<open>SyntaxError\<close>. The result of a call is the
  decoded value, or the raw text when JSON mode is off.
\<close>

datatype 'j content = Decoded 'j | Raw_text string

definition parseResponse ::
  "(string \<Rightarrow> string + 'j) \<Rightarrow> OpenRouterService \<Rightarrow> ApiResponse option \<Rightarrow> js_error + 'j content"
where
  "parseResponse JSON_parse svc response =
     (case response of
        None \<Rightarrow> Inl (JsError ''TypeError'' ''Cannot read properties of null'')
      | Some r \<Rightarrow>
          (case choices r of
             [] \<Rightarrow> Inl (OpenRouterError ''Invalid API response: no choices returned''
                          INVALID_RESPONSE None False)
           | c # cs \<Rightarrow>
               if message_content c = [] then
                 Inl (OpenRouterError ''Invalid API response: empty content''
                        EMPTY_RESPONSE None False)
               else if currentResponseFormat svc \<noteq> None then
                 (case JSON_parse (message_content c) of
                    Inr v \<Rightarrow> Inr (Decoded v)
                  | Inl m \<Rightarrow> Inl (OpenRouterError (''Failed to parse JSON response: '' @ m)
                                    JSON_PARSE_ERROR None False))
               else Inr (Raw_text (message_content c))))"

text \<open>
  \<open>now k\<close> is the \<open>k\<close>-th reading of \<open>Date.now()\<close> during the call: \<open>now 0\<close> is
  \<open>startTime\<close>, the next two are read when the metadata is stored. The console output of
  \<open>logRequest\<close> is not part of the model. \<open>try_send\<close> is the \<open>try\<close> of
  \<open>sendChatMessage\<close> up to the result and the response whose \<open>usage\<close> the metadata reads
  (reading it of \<open>null\<close> would throw).
\<close>

definition try_send ::
  "(string \<Rightarrow> string + 'j) \<Rightarrow> network \<Rightarrow> OpenRouterService \<Rightarrow> string option
     \<Rightarrow> (js_error + ('j content \<times> ApiResponse)) \<times> event list"
where
  "try_send JSON_parse net svc userMessage =
     (let messageToSend = or_string userMessage (currentUserMessage svc) in
      if messageToSend = [] then
        (Inl (OpenRouterError
                ''User message is required. Provide it via parameter or setUserMessage().''
                MISSING_USER_MESSAGE None False), [])
      else
        (case executeRequest svc net (buildRequestPayload svc messageToSend) of
           (Inl e, tr) \<Rightarrow> (Inl e, tr)
         | (Inr response, tr) \<Rightarrow>
             (case parseResponse JSON_parse svc response of
                Inl e \<Rightarrow> (Inl e, tr)
              | Inr result \<Rightarrow>
                  (case response of
                     None \<Rightarrow> (Inl (JsError ''TypeError'' ''Cannot read properties of null''), tr)
                   | Some r \<Rightarrow> (Inr (result, r), tr)))))"

definition sendChatMessage ::
  "(nat \<Rightarrow> int) \<Rightarrow> (string \<Rightarrow> string + 'j) \<Rightarrow> network \<Rightarrow> OpenRouterService \<Rightarrow> string option
     \<Rightarrow> (js_error + 'j content) \<times> OpenRouterService \<times> event list"
where
  "sendChatMessage now JSON_parse net svc userMessage =
     (case try_send JSON_parse net svc userMessage of
        (Inr (result, response), tr) \<Rightarrow>
          (Inr result,
           svc\<lparr>lastRequestMetadata := Some
             \<lparr> md_model = currentModelName svc,
               requestStartTime = now 0,
               requestEndTime = Some (now 1),
               duration = Some (now 2 - now 0),
               promptTokens = map_option prompt_tokens (usage response),
               completionTokens = map_option completion_tokens (usage response),
               totalTokens = map_option total_tokens (usage response),
               md_attempt = 1,
               success = True,
               errorCode = None,
               errorMessage = None \<rparr>\<rparr>,
           tr)
      | (Inl error, tr) \<Rightarrow>
          (Inl error,
           svc\<lparr>lastRequestMetadata := Some
             \<lparr> md_model = currentModelName svc,
               requestStartTime = now 0,
               requestEndTime = Some (now 1),
               duration = Some (now 2 - now 0),
               promptTokens = None,
               completionTokens = None,
               totalTokens = None,
               md_attempt = 1,
               success = False,
               errorCode = Some (case code_of error of Some c \<Rightarrow> c | None \<Rightarrow> UNKNOWN_ERROR),
               errorMessage = Some (if instanceof_Error error then message_of error
                                    else ''Unknown error'') \<rparr>\<rparr>,
           tr))"


section \<open>generation.service.ts\<close>

subsection \<open>Types\<close>

text \<open>
  The flashcard objects share their properties, so the records extend each other: a card
  (\<open>front\<close> and \<open>back\<close>, here \<open>card_front\<close> and \<open>card_back\<close>), a proposal (with
  \<open>source\<close>), the
  \<open>FlashcardCreateDto\<close> of a create request (with \<open>generation_id\<close>, \<open>null\<close> being
  \<open>None\<close>). The extension part \<open>\<dots>\<close> of a \<open>FlashcardCreateDto\<close> stands for any further
  property that the object carries, such as a \<open>user_id\<close>.
\<close>

record card =
  card_front :: string
  card_back :: string

record FlashcardProposalDto = card +
  source :: string

record FlashcardCreateDto = FlashcardProposalDto +
  generation_id :: "int option"

text \<open>
  What \<open>JSON.parse\<close> gives for the content of the answer, cast to the interface
  \<open>AIResponse\<close> without a check: \<open>null\<close>, or a value whose \<open>flashcards\<close> is an array
  (\<open>None\<close>: the property is missing or is not an array). An element of the array is read
  through \<open>card.front\<close> and \<open>card.back\<close> only: \<open>Json_card f b\<close> has the front \<open>f\<close> and
  the back \<open>b\<close> where these are strings, and \<open>None\<close> where the element has no string
  there (the property is missing or of another type, or the element is \<open>null\<close>).
\<close>

datatype json_card = Json_card (front_of: "string option") (back_of: "string option")

datatype AIResponse = Decoded_null | Decoded_value "json_card list option"

record GenerationCreateResponseDto =
  created_generation_id :: nat
  flashcards_proposals :: "FlashcardProposalDto list"
  created_count :: nat

text \<open>
  The rows inserted into \<open>generations\<close> and \<open>generation_error_logs\<close>: both carry the
  user, the model, and the hash and the length of the source text.
\<close>

record GenerationRow =
  row_user_id :: string
  model :: string
  source_text_hash :: string
  source_text_length :: nat

record GenerationInsert = GenerationRow +
  generated_count :: nat
  generation_duration :: int

record GenerationErrorLogInsert = GenerationRow +
  error_code :: string
  error_message :: string

text \<open>
  What the record store answers to an insert. The insert into \<open>generations\<close> resolves to
  \<open>{data, error}\<close> (a row with its id, or an error) or rejects; the insert into
  \<open>generation_error_logs\<close> resolves (its \<open>error\<close>, if any, is not read) or rejects.
\<close>

datatype generation_insert_outcome =
    Generation_inserted nat
  | Generation_error string
  | Generation_rejected js_error

datatype log_insert_outcome =
    Log_resolved "string option"
  | Log_rejected js_error

datatype effect =
    Client event
  | Insert_generation GenerationInsert
  | Insert_error_log GenerationErrorLogInsert

text \<open>
  Everything outside the service: the two clocks (\<open>Date.now()\<close> as read by the client and
  by the service, numbered by reading), \<open>JSON.parse\<close>, the network, the SHA-256 digest of
  \<open>calculateHash\<close> (hex string) and the record store.
\<close>

record World =
  client_now :: "nat \<Rightarrow> int"
  service_now :: "nat \<Rightarrow> int"
  JSON_parse :: "string \<Rightarrow> string + AIResponse"
  net :: network
  sha256_hex :: "string \<Rightarrow> string"
  insert_generation :: "GenerationInsert \<Rightarrow> generation_insert_outcome"
  insert_error_log :: "GenerationErrorLogInsert \<Rightarrow> log_insert_outcome"

subsection \<open>Construction\<close>

definition MODEL_NAME :: string where
  "MODEL_NAME = ''openai/gpt-4o-mini''"

definition nl :: string where
  "nl = [CHR 0x0A]"

definition systemMessage :: string where
  \<open>systemMessage =
     ''You are an expert educational AI assistant specialized in creating high-quality flashcards for learning.'' @ nl
   @ nl
   @ ''Your task is to generate exactly 5 flashcards from the provided text. Each flashcard should:'' @ nl
   @ ''1. Have a clear, focused question on the front (max 200 characters)'' @ nl
   @ ''2. Have a comprehensive, accurate answer on the back (max 500 characters)'' @ nl
   @ ''3. Cover different aspects or key concepts from the source text'' @ nl
   @ ''4. Be educationally valuable and promote active recall'' @ nl
   @ ''5. Use clear, concise language'' @ nl
   @ nl
   @ ''Guidelines:'' @ nl
   @ ''- Focus on important concepts, facts, definitions, or relationships'' @ nl
   @ ''- Avoid trivial or overly complex questions'' @ nl
   @ ''- Make questions specific and answerable'' @ nl
   @ ''- Ensure answers are complete and self-contained'' @ nl
   @ ''- Vary the question types (what, why, how, when, define, etc.)'' @ nl
   @ nl
   @ ''IMPORTANT: You must respond with valid JSON in the following format:'' @ nl
   @ ''{'' @ nl
   @ ''  "flashcards": ['' @ nl
   @ ''    {'' @ nl
   @ ''      "front": "Question text here (max 200 chars)",'' @ nl
   @ ''      "back": "Answer text here (max 500 chars)"'' @ nl
   @ ''    }'' @ nl
   @ ''  ]'' @ nl
   @ ''}'' @ nl
   @ nl
   @ ''Generate exactly 5 flashcards in this JSON format.''\<close>

definition configureOpenRouter :: "OpenRouterService \<Rightarrow> OpenRouterService" where
  "configureOpenRouter openRouter =
     enableJsonMode
       (setSystemMessage systemMessage
          (setModel MODEL_NAME
             \<lparr> temperature = Present (Some (7 / 10)), top_p = Absent,
               frequency_penalty = Absent, presence_penalty = Absent,
               max_tokens = Present (Some 2000) \<rparr>
             openRouter))"

text \<open>
  The constructor of \<open>GenerationService\<close>: the service is its client (the record store
  is in the world). It throws what the constructor of the client throws.
\<close>

definition new_GenerationService :: "string option \<Rightarrow> js_error + OpenRouterService" where
  "new_GenerationService env_key =
     (case new_OpenRouterService env_key
             \<lparr> cfg_apiKey = None, cfg_baseUrl = None, cfg_timeout = Some 90000,
               cfg_maxRetries = Some 3, cfg_retryDelay = None \<rparr> of
        Inl e \<Rightarrow> Inl e
      | Inr openRouter \<Rightarrow> Inr (configureOpenRouter openRouter))"

subsection \<open>callAIService\<close>

text \<open>The \<open>catch\<close> of \<open>callAIService\<close> (lines 178-199): what it throws for a caught value.\<close>

definition catch_callAIService :: "js_error \<Rightarrow> js_error" where
  "catch_callAIService error =
     (case error of
        OpenRouterError m c st r \<Rightarrow>
          if c = AUTHENTICATION_ERROR then
            JsError ''Error'' ''AI service authentication failed. Please check your API key.''
          else if c = RATE_LIMIT_ERROR then
            JsError ''Error'' ''AI service rate limit exceeded. Please try again later.''
          else if c = TIMEOUT_ERROR then
            JsError ''Error'' ''AI service request timed out. Please try again.''
          else if c = NETWORK_ERROR then
            JsError ''Error''
              ''Network error while connecting to AI service. Please check your connection.''
          else JsError ''Error'' (''AI service error: '' @ m)
      | _ \<Rightarrow> error)"

text \<open>
  \<open>response.flashcards\<close> of what the client returned: reading it of \<open>null\<close> throws a
  \<open>TypeError\<close>, raw text (JSON mode off) has no such property.
\<close>

fun flashcards_of :: "AIResponse content \<Rightarrow> js_error + json_card list option" where
  "flashcards_of (Decoded Decoded_null) =
     Inl (JsError ''TypeError'' ''Cannot read properties of null'')"
| "flashcards_of (Decoded (Decoded_value fs)) = Inr fs"
| "flashcards_of (Raw_text t) = Inr None"

text \<open>
  The \<open>map\<close> over the cards (lines 173-177): \<open>card.front.substring(0, 200)\<close> and
  \<open>card.back.substring(0, 500)\<close> throw a \<open>TypeError\<close> at the first element whose front or
  back is not a string (the text of the message depends on the engine);
  \<open>substring(0, n)\<close> of a string is \<open>take n\<close>.
\<close>

fun to_proposals :: "json_card list \<Rightarrow> js_error + FlashcardProposalDto list" where
  "to_proposals [] = Inr []"
| "to_proposals (c # cs) =
     (case front_of c of
        None \<Rightarrow> Inl (JsError ''TypeError'' ''Cannot read properties of undefined'')
      | Some f \<Rightarrow>
          (case back_of c of
             None \<Rightarrow> Inl (JsError ''TypeError'' ''Cannot read properties of undefined'')
           | Some b \<Rightarrow>
               (case to_proposals cs of
                  Inl e \<Rightarrow> Inl e
                | Inr ps \<Rightarrow>
                    Inr (\<lparr> card_front = take 200 f, card_back = take 500 b,
                           source = ''ai-full'' \<rparr> # ps))))"

definition callAIService ::
  "World \<Rightarrow> OpenRouterService \<Rightarrow> string
     \<Rightarrow> (js_error + FlashcardProposalDto list) \<times> OpenRouterService \<times> event list"
where
  "callAIService w openRouter sourceText =
     (let userMessage =
            ''Generate 5 educational flashcards from the following text:'' @ nl @ nl @ sourceText
      in case sendChatMessage (client_now w) (JSON_parse w) (net w) openRouter (Some userMessage) of
           (Inl error, openRouter', tr) \<Rightarrow> (Inl (catch_callAIService error), openRouter', tr)
         | (Inr response, openRouter', tr) \<Rightarrow>
             (case flashcards_of response of
                Inl error \<Rightarrow> (Inl (catch_callAIService error), openRouter', tr)
              | Inr None \<Rightarrow>
                  (Inl (catch_callAIService
                          (JsError ''Error'' ''Invalid response format from AI service'')),
                   openRouter', tr)
              | Inr (Some cards) \<Rightarrow>
                  (case to_proposals cards of
                     Inl error \<Rightarrow> (Inl (catch_callAIService error), openRouter', tr)
                   | Inr proposals \<Rightarrow> (Inr proposals, openRouter', tr))))"

subsection \<open>logGenerationError and generateFlashcards\<close>

text \<open>
  \<open>logGenerationError\<close> gives \<open>Some e\<close> if it throws \<open>e\<close> and \<open>None\<close> if it returns.
  Its \<open>duration\<close> argument is never read. The console output is not part of the model.
\<close>

definition logGenerationError ::
  "World \<Rightarrow> js_error \<Rightarrow> string \<Rightarrow> string \<Rightarrow> string \<Rightarrow> int \<Rightarrow> js_error option \<times> effect list"
where
  "logGenerationError w error sourceText model_name userId elapsed =
     (let errorMessage = (if instanceof_Error error then message_of error else ''Unknown error'');
          errorCode = (if instanceof_Error error then name_of error else ''UNKNOWN_ERROR'');
          sourceTextHash = sha256_hex w sourceText;
          sourceTextLength = length sourceText;
          row = \<lparr> row_user_id = userId, model = model_name,
                  source_text_hash = sourceTextHash, source_text_length = sourceTextLength,
                  error_code = errorCode, error_message = errorMessage \<rparr>
      in case insert_error_log w row of
           Log_resolved e \<Rightarrow> (None, [Insert_error_log row])
         | Log_rejected logError \<Rightarrow> (None, [Insert_error_log row]))"

text \<open>The \<open>try\<close> of \<open>generateFlashcards\<close> (lines 87-123).\<close>

definition try_generateFlashcards ::
  "World \<Rightarrow> OpenRouterService \<Rightarrow> string \<Rightarrow> string
     \<Rightarrow> (js_error + GenerationCreateResponseDto) \<times> OpenRouterService \<times> effect list"
where
  "try_generateFlashcards w openRouter sourceText userId =
     (case callAIService w openRouter sourceText of
        (Inl error, openRouter', tr) \<Rightarrow> (Inl error, openRouter', map Client tr)
      | (Inr flashcardsProposals, openRouter', tr) \<Rightarrow>
          (let generatedCount = length flashcardsProposals;
               measured = (case getLastRequestMetadata openRouter' of
                             None \<Rightarrow> None | Some metadata \<Rightarrow> duration metadata);
               generationDuration =
                 (case measured of
                    None \<Rightarrow> service_now w 1 - service_now w 0
                  | Some d \<Rightarrow> if d = 0 then service_now w 1 - service_now w 0 else d);
               row = \<lparr> row_user_id = userId, model = MODEL_NAME,
                       source_text_hash = sha256_hex w sourceText,
                       source_text_length = length sourceText,
                       generated_count = generatedCount,
                       generation_duration = generationDuration \<rparr>
           in case insert_generation w row of
                Generation_inserted new_id \<Rightarrow>
                  (Inr \<lparr> created_generation_id = new_id,
                         flashcards_proposals = flashcardsProposals,
                         created_count = generatedCount \<rparr>,
                   openRouter', map Client tr @ [Insert_generation row])
              | Generation_error generationError \<Rightarrow>
                  (Inl (JsError ''Error'' ''Failed to save generation metadata''),
                   openRouter', map Client tr @ [Insert_generation row])
              | Generation_rejected e \<Rightarrow>
                  (Inl e, openRouter', map Client tr @ [Insert_generation row])))"

definition generateFlashcards ::
  "World \<Rightarrow> OpenRouterService \<Rightarrow> string \<Rightarrow> string
     \<Rightarrow> (js_error + GenerationCreateResponseDto) \<times> OpenRouterService \<times> effect list"
where
  "generateFlashcards w openRouter sourceText userId =
     (case try_generateFlashcards w openRouter sourceText userId of
        (Inr result, openRouter', tr) \<Rightarrow> (Inr result, openRouter', tr)
      | (Inl error, openRouter', tr) \<Rightarrow>
          (case logGenerationError w error sourceText MODEL_NAME userId
                  (service_now w 1 - service_now w 0) of
             (Some thrown, tr') \<Rightarrow> (Inl thrown, openRouter', tr @ tr')
           | (None, tr') \<Rightarrow> (Inl error, openRouter', tr @ tr')))"


section \<open>validation.ts\<close>

text \<open>
  The schemas are built with the zod library; \<open>safeParse\<close> collects issues, each a path
  and a message, and succeeds when there is none. The input is read at the types that the
  handlers declare for the request body.
\<close>

datatype path_segment = Key string | Index nat

type_synonym ZodIssue = "path_segment list \<times> string"

datatype 'a SafeParse = Success 'a | Failure "ZodIssue list"

definition safeParse :: "('a \<Rightarrow> ZodIssue list) \<Rightarrow> ('a \<Rightarrow> 'b) \<Rightarrow> 'a \<Rightarrow> 'b SafeParse" where
  "safeParse schema output input =
     (if schema input = [] then Success (output input) else Failure (schema input))"

record GenerateFlashcardsCommand =
  source_text :: string

definition generateFlashcardsCommandSchema :: "GenerateFlashcardsCommand \<Rightarrow> ZodIssue list" where
  "generateFlashcardsCommandSchema command =
     (if length (source_text command) < 1000
      then [([Key ''source_text''], ''Source text must be at least 1000 characters long'')]
      else [])
     @ (if length (source_text command) > 10000
        then [([Key ''source_text''], ''Source text cannot exceed 10000 characters'')]
        else [])"

text \<open>The function given to \<open>refine\<close> (lines 37-47).\<close>

definition refinement :: "'a FlashcardCreateDto_scheme \<Rightarrow> bool" where
  "refinement data =
     (if source data = ''manual'' then generation_id data = None
      else if source data = ''ai-full'' \<or> source data = ''ai-edited''
        then generation_id data \<noteq> None
      else True)"

text \<open>
  The issues of one flashcard at a path. A length check that fails adds its issue and the
  parse goes on; a \<open>source\<close> outside the enum is an invalid value, the object is then not
  handed to the refinement.
\<close>

definition flashcardCreateDtoSchema ::
  "path_segment list \<Rightarrow> 'a FlashcardCreateDto_scheme \<Rightarrow> ZodIssue list" where
  "flashcardCreateDtoSchema p data =
     (if length (card_front data) < 1 then [(p @ [Key ''front''], ''Front text is required'')]
      else [])
     @ (if length (card_front data) > 200
        then [(p @ [Key ''front''], ''Front text cannot exceed 200 characters'')] else [])
     @ (if length (card_back data) < 1 then [(p @ [Key ''back''], ''Back text is required'')]
        else [])
     @ (if length (card_back data) > 500
        then [(p @ [Key ''back''], ''Back text cannot exceed 500 characters'')] else [])
     @ (if source data \<in> set [''ai-full'', ''ai-edited'', ''manual''] then
          (if refinement data then []
           else [(p @ [Key ''generation_id''],
                  ''generation_id must be null for manual source and required for ai-full/ai-edited sources'')])
        else [(p @ [Key ''source''],
               ''Invalid enum value. Expected 'ai-full' | 'ai-edited' | 'manual', received ''
                 @ [CHR 0x27] @ source data @ [CHR 0x27])])"

record 'a FlashcardsCreateCommand =
  command_flashcards :: "'a FlashcardCreateDto_scheme list"

definition flashcardsCreateCommandSchema :: "'a FlashcardsCreateCommand \<Rightarrow> ZodIssue list" where
  "flashcardsCreateCommandSchema command =
     (if length (command_flashcards command) < 1
      then [([Key ''flashcards''], ''At least one flashcard is required'')] else [])
     @ concat (map (\<lambda>(i, data). flashcardCreateDtoSchema [Key ''flashcards'', Index i] data)
                 (enumerate 0 (command_flashcards command)))"

text \<open>The parsed data keeps the properties of the schema only.\<close>

definition strip :: "'a FlashcardCreateDto_scheme \<Rightarrow> FlashcardCreateDto" where
  "strip data =
     \<lparr> card_front = card_front data, card_back = card_back data, source = source data,
       generation_id = generation_id data \<rparr>"

section \<open>flashcard.service.ts\<close>

record FlashcardInsert = FlashcardCreateDto +
  user_id :: string

record FlashcardDto = FlashcardCreateDto +
  flashcard_id :: nat
  created_at :: string
  updated_at :: string

text \<open>
  The insert into \<open>flashcards\<close> resolves to \<open>{data, error}\<close> (the rows selected back, the
  message of the error) or rejects.
\<close>

datatype flashcards_insert_outcome =
    Flashcards_resolved "FlashcardDto list option" "string option"
  | Flashcards_rejected js_error

text \<open>The result comes with the batches handed to the store, in order.\<close>

definition createFlashcards ::
  "(FlashcardInsert list \<Rightarrow> flashcards_insert_outcome) \<Rightarrow> 'a FlashcardCreateDto_scheme list
     \<Rightarrow> string \<Rightarrow> (js_error + FlashcardDto list) \<times> FlashcardInsert list list"
where
  "createFlashcards insert_flashcards fs userId =
     (if fs = [] then (Inl (JsError ''Error'' ''At least one flashcard is required''), [])
      else
        (let flashcardsToInsert =
               map (\<lambda>flashcard.
                      \<lparr> card_front = card_front flashcard, card_back = card_back flashcard,
                        source = source flashcard, generation_id = generation_id flashcard,
                        user_id = userId \<rparr>) fs
         in case insert_flashcards flashcardsToInsert of
              Flashcards_rejected e \<Rightarrow> (Inl e, [flashcardsToInsert])
            | Flashcards_resolved rows (Some m) \<Rightarrow>
                (Inl (JsError ''Error'' (''Failed to create flashcards: '' @ m)),
                 [flashcardsToInsert])
            | Flashcards_resolved None None \<Rightarrow>
                (Inl (JsError ''Error'' ''No flashcards were created''), [flashcardsToInsert])
            | Flashcards_resolved (Some rows) None \<Rightarrow>
                (if rows = []
                 then (Inl (JsError ''Error'' ''No flashcards were created''), [flashcardsToInsert])
                 else (Inr rows, [flashcardsToInsert]))))"

section \<open>The handlers: pages/api/flashcards.ts and pages/api/generations.ts\<close>

text \<open>
  \<open>await request.json()\<close> rejects or gives the body; \<open>locals.user\<close> is absent or has an
  id. A handler answers with a status and a JSON body.
\<close>

datatype 'a request_json = Invalid_JSON | Body 'a

datatype api_body =
    Error_body string string "(string \<times> string) list option"
  | Flashcards_body "FlashcardDto list"
  | Generation_body GenerationCreateResponseDto

fun segment_text :: "path_segment \<Rightarrow> string" where
  "segment_text (Key k) = k"
| "segment_text (Index i) = string_of_nat i"

fun join :: "string \<Rightarrow> string list \<Rightarrow> string" where
  "join sep [] = []"
| "join sep [x] = x"
| "join sep (x # y # ys) = x @ sep @ join sep (y # ys)"

definition details :: "ZodIssue list \<Rightarrow> (string \<times> string) list" where
  "details errors = map (\<lambda>(p, m). (join ''.'' (map segment_text p), m)) errors"

definition POST_flashcards ::
  "(FlashcardInsert list \<Rightarrow> flashcards_insert_outcome) \<Rightarrow> string option
     \<Rightarrow> 'a FlashcardsCreateCommand request_json \<Rightarrow> (nat \<times> api_body) \<times> FlashcardInsert list list"
where
  "POST_flashcards insert_flashcards locals_user request =
     (case locals_user of
        None \<Rightarrow>
          ((401, Error_body ''Unauthorized'' ''Authentication required. Please log in.'' None), [])
      | Some user_id' \<Rightarrow>
          (case request of
             Invalid_JSON \<Rightarrow>
               ((400, Error_body ''Bad Request'' ''Invalid JSON in request body'' None), [])
           | Body requestBody \<Rightarrow>
               (case safeParse flashcardsCreateCommandSchema
                       (\<lambda>c. map strip (command_flashcards c)) requestBody of
                  Failure errors \<Rightarrow>
                    ((400, Error_body ''Validation Error'' ''Invalid request data''
                             (Some (details errors))), [])
                | Success valid \<Rightarrow>
                    (case createFlashcards insert_flashcards valid user_id' of
                       (Inr createdFlashcards, tr) \<Rightarrow> ((201, Flashcards_body createdFlashcards), tr)
                     | (Inl error, tr) \<Rightarrow>
                         ((500, Error_body ''Internal Server Error''
                                  ''An error occurred while creating flashcards. Please try again later.''
                                  None), tr)))))"

text \<open>\<open>env_key\<close> is the API key of the environment, read when the service is constructed.\<close>

definition POST_generations ::
  "World \<Rightarrow> string option \<Rightarrow> string option \<Rightarrow> GenerateFlashcardsCommand request_json
     \<Rightarrow> (nat \<times> api_body) \<times> effect list"
where
  "POST_generations w env_key locals_user request =
     (case locals_user of
        None \<Rightarrow>
          ((401, Error_body ''Unauthorized'' ''Authentication required. Please log in.'' None), [])
      | Some user_id' \<Rightarrow>
          (case request of
             Invalid_JSON \<Rightarrow>
               ((400, Error_body ''Bad Request'' ''Invalid JSON in request body'' None), [])
           | Body requestBody \<Rightarrow>
               (case safeParse generateFlashcardsCommandSchema (\<lambda>c. c) requestBody of
                  Failure errors \<Rightarrow>
                    ((400, Error_body ''Validation Error'' ''Invalid request data''
                             (Some (details errors))), [])
                | Success valid \<Rightarrow>
                    (case new_GenerationService env_key of
                       Inl error \<Rightarrow>
                         ((500, Error_body ''Internal Server Error''
                                  ''An error occurred while generating flashcards. Please try again later.''
                                  None), [])
                     | Inr generationService \<Rightarrow>
                         (case generateFlashcards w generationService (source_text valid) user_id' of
                            (Inr result, svc, tr) \<Rightarrow> ((201, Generation_body result), tr)
                          | (Inl error, svc, tr) \<Rightarrow>
                              ((500, Error_body ''Internal Server Error''
                                       ''An error occurred while generating flashcards. Please try again later.''
                                       None), tr))))))"


section \<open>Notions used in the statements\<close>

text \<open>
  The errors that the \<open>catch\<close> of an attempt treats as retryable: the abort of the
  timeout, a \<open>TypeError\<close>, and an \<open>OpenRouterError\<close> flagged retryable.
\<close>

definition retryable_error :: "js_error \<Rightarrow> bool" where
  "retryable_error e =
     ((instanceof_Error e \<and> name_of e = ''AbortError'') \<or> instanceof_TypeError e
      \<or> (instanceof_OpenRouterError e \<and> retryable_of e))"

text \<open>The error that the client raises for the value caught in its last attempt.\<close>

definition raised_error :: "OpenRouterService \<Rightarrow> js_error \<Rightarrow> js_error" where
  "raised_error svc e =
     (if instanceof_Error e \<and> name_of e = ''AbortError'' then
        OpenRouterError (''Request timed out after '' @ string_of_nat (timeout svc) @ ''ms'')
          TIMEOUT_ERROR None True
      else if instanceof_TypeError e then
        OpenRouterError (''Network error: '' @ message_of e) NETWORK_ERROR None True
      else if instanceof_OpenRouterError e then e
      else OpenRouterError
             (''Request failed after '' @ string_of_nat (maxRetries svc + 1) @ '' attempts: ''
                @ (if instanceof_Error e then message_of e else ''Unknown error''))
             REQUEST_FAILED None False)"

definition retryable_outcome :: "fetch_outcome \<Rightarrow> bool" where
  "retryable_outcome out = (case try_attempt out of Inl e \<Rightarrow> retryable_error e | Inr d \<Rightarrow> False)"

text \<open>
  The trace of \<open>n\<close> attempts numbered from \<open>a\<close> with base delay \<open>d\<close>: every attempt but
  the last is followed by a sleep of \<open>d * 2 ^ attempt\<close>.
\<close>

fun backoff_trace :: "nat \<Rightarrow> nat \<Rightarrow> nat \<Rightarrow> event list" where
  "backoff_trace d a 0 = []"
| "backoff_trace d a (Suc 0) = [Fetch a]"
| "backoff_trace d a (Suc (Suc n)) = Fetch a # Sleep (d * 2 ^ a) # backoff_trace d (Suc a) (Suc n)"

fun attempts_made :: "event list \<Rightarrow> nat" where
  "attempts_made [] = 0"
| "attempts_made (Fetch i # tr) = Suc (attempts_made tr)"
| "attempts_made (Sleep d # tr) = attempts_made tr"

fun sleeps :: "event list \<Rightarrow> nat list" where
  "sleeps [] = []"
| "sleeps (Fetch i # tr) = sleeps tr"
| "sleeps (Sleep d # tr) = d # sleeps tr"

text \<open>The row that \<open>logGenerationError\<close> hands to the store.\<close>

definition error_log_row ::
  "World \<Rightarrow> js_error \<Rightarrow> string \<Rightarrow> string \<Rightarrow> string \<Rightarrow> GenerationErrorLogInsert" where
  "error_log_row w error sourceText model_name userId =
     \<lparr> row_user_id = userId, model = model_name,
       source_text_hash = sha256_hex w sourceText, source_text_length = length sourceText,
       error_code = (if instanceof_Error error then name_of error else ''UNKNOWN_ERROR''),
       error_message = (if instanceof_Error error then message_of error else ''Unknown error'') \<rparr>"

text \<open>
  The row that \<open>generateFlashcards\<close> hands to the store after a model call that left the
  client in the state \<open>openRouter'\<close> and gave \<open>n\<close> proposals, and the error that the
  \<open>try\<close> throws for the answer of the store to that insert, if any.
\<close>

definition generation_row ::
  "World \<Rightarrow> OpenRouterService \<Rightarrow> nat \<Rightarrow> string \<Rightarrow> string \<Rightarrow> GenerationInsert" where
  "generation_row w openRouter' n sourceText userId =
     \<lparr> row_user_id = userId, model = MODEL_NAME,
       source_text_hash = sha256_hex w sourceText, source_text_length = length sourceText,
       generated_count = n,
       generation_duration =
         (case (case getLastRequestMetadata openRouter' of
                  None \<Rightarrow> None | Some metadata \<Rightarrow> duration metadata) of
            None \<Rightarrow> service_now w 1 - service_now w 0
          | Some d \<Rightarrow> if d = 0 then service_now w 1 - service_now w 0 else d) \<rparr>"

fun persistence_failure :: "generation_insert_outcome \<Rightarrow> js_error option" where
  "persistence_failure (Generation_inserted new_id) = None"
| "persistence_failure (Generation_error m) =
     Some (JsError ''Error'' ''Failed to save generation metadata'')"
| "persistence_failure (Generation_rejected e) = Some e"

text \<open>An element of the decoded array that has a string front and a string back.\<close>

definition json_of_card :: "card \<Rightarrow> json_card" where
  "json_of_card c = Json_card (Some (card_front c)) (Some (card_back c))"

text \<open>
  The invariant of a flashcard, its violation as the specification words it, and the message
  of the refinement.
\<close>

definition violates_invariant :: "'a FlashcardCreateDto_scheme \<Rightarrow> bool" where
  "violates_invariant f =
     ((source f = ''manual'' \<and> generation_id f \<noteq> None)
      \<or> ((source f = ''ai-full'' \<or> source f = ''ai-edited'') \<and> generation_id f = None))"

definition source_consistent :: "'a FlashcardCreateDto_scheme \<Rightarrow> bool" where
  "source_consistent f =
     ((source f = ''manual'' \<longrightarrow> generation_id f = None)
      \<and> (source f = ''ai-full'' \<or> source f = ''ai-edited'' \<longrightarrow> generation_id f \<noteq> None))"

definition refinement_message :: string where
  "refinement_message =
     ''generation_id must be null for manual source and required for ai-full/ai-edited sources''"

section \<open>Example inputs\<close>

text \<open>The client as \<open>GenerationService\<close> constructs it, with the key \<open>sk-test\<close>.\<close>

definition example_client :: OpenRouterService where
  "example_client =
     configureOpenRouter
       \<lparr> apiKey = ''sk-test'', baseUrl = ''https://openrouter.ai/api/v1'', timeout = 90000,
         maxRetries = 3, retryDelay = 1000, currentSystemMessage = [], currentUserMessage = [],
         currentResponseFormat = None, currentModelName = ''gpt-4o-mini'',
         currentModelParameters =
           \<lparr> temperature = Some (7 / 10), top_p = Some 1, frequency_penalty = Some 0,
             presence_penalty = Some 0, max_tokens = Some 4096 \<rparr>,
         lastRequestMetadata = None \<rparr>"

text \<open>A payload, and the outcomes of \<open>fetch\<close> used below: a response with a status and a
  body, and the body of a successful completion with a given content.\<close>

definition example_payload :: RequestPayload where
  "example_payload = buildRequestPayload example_client ''Hello''"

definition http_response :: "nat \<Rightarrow> response_body \<Rightarrow> fetch_outcome" where
  "http_response st b = Fetch_response \<lparr> status = st, statusText = [], body = b \<rparr>"

definition completion :: "string \<Rightarrow> response_body" where
  "completion text =
     Body_json None
       \<lparr> response_id = ''gen-1'',
         choices = [\<lparr> message_role = ''assistant'', message_content = text,
                      finish_reason = ''stop'' \<rparr>],
         usage = Some \<lparr> prompt_tokens = 300, completion_tokens = 120, total_tokens = 420 \<rparr>,
         response_model = ''openai/gpt-4o-mini'' \<rparr>"

text \<open>A network that answers 429 twice and 503 from then on, with bodies that are not JSON.\<close>

definition flaky_network :: network where
  "flaky_network payload i =
     (if i < 2 then http_response 429 (Body_not_json ''Unexpected token'')
      else http_response 503 (Body_not_json ''Unexpected token''))"

text \<open>A configuration with explicit zeros, and the client that the constructor makes of it.\<close>

definition zero_config :: OpenRouterConfig where
  "zero_config =
     \<lparr> cfg_apiKey = Some ''sk-test'', cfg_baseUrl = None, cfg_timeout = Some 0,
       cfg_maxRetries = Some 0, cfg_retryDelay = Some 0 \<rparr>"

definition zero_client :: OpenRouterService where
  "zero_client =
     \<lparr> apiKey = ''sk-test'', baseUrl = ''https://openrouter.ai/api/v1'', timeout = 60000,
       maxRetries = 3, retryDelay = 1000, currentSystemMessage = [], currentUserMessage = [],
       currentResponseFormat = None, currentModelName = ''gpt-4o-mini'',
       currentModelParameters =
         \<lparr> temperature = Some (7 / 10), top_p = Some 1, frequency_penalty = Some 0,
           presence_penalty = Some 0, max_tokens = Some 4096 \<rparr>,
       lastRequestMetadata = None \<rparr>"

text \<open>
  Networks that always answer 429, that always answer 401 with the JSON body \<open>null\<close>, and
  that answer 429 twice and then 200.
\<close>

definition rate_limited_network :: network where
  "rate_limited_network payload i = http_response 429 (Body_not_json ''Unexpected token'')"

definition unauthorized_null_network :: network where
  "unauthorized_null_network payload i = http_response 401 Body_null"

definition recovering_network :: network where
  "recovering_network payload i =
     (if i < 2 then http_response 429 (Body_not_json ''Unexpected token'')
      else http_response 200 (completion ''{}''))"

text \<open>
  A world in which everything works: the model answers with three cards, the store accepts
  every insert. The digest is a stand-in (the statements hold for any function of the text).
\<close>

definition example_content :: string where
  \<open>example_content =
     ''{"flashcards":[{"front":"Q1","back":"A1"},{"front":"Q2","back":"A2"},{"front":"Q3","back":"A3"}]}''\<close>

definition three_cards :: "card list" where
  "three_cards =
     [\<lparr> card_front = ''Q1'', card_back = ''A1'' \<rparr>,
      \<lparr> card_front = ''Q2'', card_back = ''A2'' \<rparr>,
      \<lparr> card_front = ''Q3'', card_back = ''A3'' \<rparr>]"

definition example_source_text :: string where
  "example_source_text = replicate 1000 (CHR ''a'')"

definition example_world :: World where
  "example_world =
     \<lparr> client_now = (\<lambda>k. 1000 + 7 * int k),
       service_now = (\<lambda>k. 990 + 30 * int k),
       JSON_parse = (\<lambda>t. if t = example_content
                           then Inr (Decoded_value (Some (map json_of_card three_cards)))
                           else Inl ''Unexpected token''),
       net = (\<lambda>payload i. http_response 200 (completion example_content)),
       sha256_hex = (\<lambda>t. ''digest of '' @ t),
       insert_generation = (\<lambda>row. Generation_inserted 42),
       insert_error_log = (\<lambda>row. Log_resolved None) \<rparr>"

text \<open>The client after the call of that world, and the proposals made of the three cards.\<close>

definition example_client_after :: OpenRouterService where
  "example_client_after =
     example_client\<lparr>lastRequestMetadata := Some
       \<lparr> md_model = MODEL_NAME, requestStartTime = 1000, requestEndTime = Some 1007,
         duration = Some 14, promptTokens = Some 300, completionTokens = Some 120,
         totalTokens = Some 420, md_attempt = 1, success = True, errorCode = None,
         errorMessage = None \<rparr>\<rparr>"

definition example_proposals :: "FlashcardProposalDto list" where
  "example_proposals =
     [\<lparr> card_front = ''Q1'', card_back = ''A1'', source = ''ai-full'' \<rparr>,
      \<lparr> card_front = ''Q2'', card_back = ''A2'', source = ''ai-full'' \<rparr>,
      \<lparr> card_front = ''Q3'', card_back = ''A3'', source = ''ai-full'' \<rparr>]"

text \<open>
  The same world with a model whose answer has an array of three elements, the second with a
  number for its front.
\<close>

definition malformed_cards :: "json_card list" where
  "malformed_cards =
     [Json_card (Some ''Q1'') (Some ''A1''), Json_card None (Some ''A2''),
      Json_card (Some ''Q3'') (Some ''A3'')]"

definition malformed_world :: World where
  "malformed_world =
     example_world \<lparr> JSON_parse := (\<lambda>t. Inr (Decoded_value (Some malformed_cards))) \<rparr>"

text \<open>The same world with a store that refuses both inserts, and with an endpoint that always
  answers 401.\<close>

definition failing_store_world :: World where
  "failing_store_world =
     example_world
       \<lparr> insert_generation := (\<lambda>row. Generation_error ''connection refused''),
         insert_error_log := (\<lambda>row. Log_rejected (JsError ''Error'' ''connection refused'')) \<rparr>"

definition unauthorized_world :: World where
  "unauthorized_world =
     example_world \<lparr> net := (\<lambda>payload i. http_response 401 (Body_not_json ''Unexpected token'')) \<rparr>"

text \<open>
  Requests: a source text of 999 characters; a flashcard that carries a \<open>user_id\<close> of its
  own and the same flashcard without it; a batch whose second flashcard is AI-sourced without
  a \<open>generation_id\<close>; a store that accepts every batch.
\<close>

definition short_command :: GenerateFlashcardsCommand where
  "short_command = \<lparr> source_text = replicate 999 (CHR ''a'') \<rparr>"

definition spoofed_flashcards :: "FlashcardInsert list" where
  "spoofed_flashcards =
     [\<lparr> card_front = ''Q'', card_back = ''A'', source = ''manual'', generation_id = None,
        user_id = ''mallory'' \<rparr>]"

definition plain_flashcards :: "FlashcardCreateDto list" where
  "plain_flashcards =
     [\<lparr> card_front = ''Q'', card_back = ''A'', source = ''manual'', generation_id = None \<rparr>]"

definition inconsistent_command :: "unit FlashcardsCreateCommand" where
  "inconsistent_command =
     \<lparr> command_flashcards =
         [\<lparr> card_front = ''Q'', card_back = ''A'', source = ''manual'', generation_id = None \<rparr>,
          \<lparr> card_front = ''Q2'', card_back = ''A2'', source = ''ai-full'', generation_id = None \<rparr>] \<rparr>"

definition example_store :: "FlashcardInsert list \<Rightarrow> flashcards_insert_outcome" where
  "example_store rows =
     Flashcards_resolved
       (Some (map (\<lambda>r. \<lparr> card_front = card_front r, card_back = card_back r, source = source r,
                          generation_id = generation_id r, flashcard_id = 1,
                          created_at = ''2025-10-23T00:00:00Z'',
                          updated_at = ''2025-10-23T00:00:00Z'' \<rparr>) rows))
       None"

section \<open>The retry loop\<close>

lemma catch_attempt_eq:
  "catch_attempt svc a e =
     (if retryable_error e \<and> a < maxRetries svc then Continue (retryDelay svc * 2 ^ a)
      else Throw (raised_error svc e))"
  by (cases e) (auto simp: catch_attempt_def retryable_error_def raised_error_def)

lemma executeRequest_from_step:
  "a \<le> maxRetries svc \<Longrightarrow>
   executeRequest_from svc nw a =
     (case try_attempt (nw a) of
        Inr data \<Rightarrow> (Inr data, [Fetch a])
      | Inl e \<Rightarrow>
          if retryable_error e \<and> a < maxRetries svc then
            (fst (executeRequest_from svc nw (Suc a)),
             Fetch a # Sleep (retryDelay svc * 2 ^ a) # snd (executeRequest_from svc nw (Suc a)))
          else (Inl (raised_error svc e), [Fetch a]))"
  by (subst executeRequest_from.simps) (simp add: catch_attempt_eq split: sum.splits)

lemma attempts_made_backoff [simp]: "attempts_made (backoff_trace d a n) = n"
  by (induction d a n rule: backoff_trace.induct) auto

lemma sleeps_backoff: "sleeps (backoff_trace d a n) = map (\<lambda>i. d * 2 ^ i) [a..<a + n - 1]"
  by (induction d a n rule: backoff_trace.induct) (auto simp: upt_rec)

lemma only_index: "(a \<le> i \<and> i < Suc a) = (i = (a::nat))"
  by auto

text \<open>
  The run of the loop from attempt \<open>a\<close>: it makes \<open>n\<close> attempts, an attempt is followed by
  another exactly when it failed with a retryable error and was not the last one allowed,
  and the result is that of the last attempt made.
\<close>

lemma executeRequest_from_trace:
  "a \<le> maxRetries svc \<Longrightarrow>
   (let tr = snd (executeRequest_from svc nw a); n = attempts_made tr in
      1 \<le> n \<and> a + n \<le> maxRetries svc + 1 \<and> tr = backoff_trace (retryDelay svc) a n
      \<and> (\<forall>i. a \<le> i \<and> i < a + n \<longrightarrow>
            ((retryable_outcome (nw i) \<and> i < maxRetries svc) = (i + 1 < a + n)))
      \<and> (\<forall>e. try_attempt (nw (a + n - 1)) = Inl e \<longrightarrow>
            fst (executeRequest_from svc nw a) = Inl (raised_error svc e))
      \<and> (\<forall>d. try_attempt (nw (a + n - 1)) = Inr d \<longrightarrow>
            fst (executeRequest_from svc nw a) = Inr d))"
proof (induction svc nw a rule: executeRequest_from.induct)
  case (1 svc nw a)
  show ?case
  proof (cases "try_attempt (nw a)")
    case (Inr data)
    then show ?thesis using "1.prems"
      by (simp add: executeRequest_from_step retryable_outcome_def Let_def only_index)
  next
    case (Inl e)
    show ?thesis
    proof (cases "retryable_error e \<and> a < maxRetries svc")
      case False
      have stop: "executeRequest_from svc nw a = (Inl (raised_error svc e), [Fetch a])"
        using False Inl "1.prems" by (simp only: executeRequest_from_step sum.case if_False)
      have nr: "\<not> (retryable_outcome (nw a) \<and> a < maxRetries svc)"
        using False Inl by (simp add: retryable_outcome_def)
      show ?thesis
        unfolding Let_def stop snd_conv fst_conv
        using nr Inl "1.prems" by (simp add: only_index)
    next
      case True
      then have c: "catch_attempt svc a e = Continue (retryDelay svc * 2 ^ a)"
        by (simp add: catch_attempt_eq)
      have le: "Suc a \<le> maxRetries svc" using True by simp
      note ih = "1.IH"[OF "1.prems" Inl c le]
      define tr where "tr = snd (executeRequest_from svc nw (Suc a))"
      define n where "n = attempts_made tr"
      have step: "executeRequest_from svc nw a =
          (fst (executeRequest_from svc nw (Suc a)), Fetch a # Sleep (retryDelay svc * 2 ^ a) # tr)"
        using True Inl "1.prems" by (simp add: executeRequest_from_step tr_def)
      from ih have n1: "1 \<le> n" and nb: "Suc a + n \<le> maxRetries svc + 1"
        and trb: "tr = backoff_trace (retryDelay svc) (Suc a) n"
        and ret: "\<forall>i. Suc a \<le> i \<and> i < Suc a + n \<longrightarrow>
            ((retryable_outcome (nw i) \<and> i < maxRetries svc) = (i + 1 < Suc a + n))"
        and last1: "\<forall>e. try_attempt (nw (Suc a + n - 1)) = Inl e \<longrightarrow>
            fst (executeRequest_from svc nw (Suc a)) = Inl (raised_error svc e)"
        and last2: "\<forall>d. try_attempt (nw (Suc a + n - 1)) = Inr d \<longrightarrow>
            fst (executeRequest_from svc nw (Suc a)) = Inr d"
        by (simp_all add: Let_def tr_def n_def)
      obtain m where m: "n = Suc m" using n1 by (cases n) auto
      have am: "attempts_made (Fetch a # Sleep (retryDelay svc * 2 ^ a) # tr) = Suc n"
        by (simp add: n_def)
      have t: "Fetch a # Sleep (retryDelay svc * 2 ^ a) # tr
                 = backoff_trace (retryDelay svc) a (Suc n)"
        using trb m by simp
      have r: "\<forall>i. a \<le> i \<and> i < a + Suc n \<longrightarrow>
            ((retryable_outcome (nw i) \<and> i < maxRetries svc) = (i + 1 < a + Suc n))"
      proof (intro allI impI)
        fix i assume i: "a \<le> i \<and> i < a + Suc n"
        show "(retryable_outcome (nw i) \<and> i < maxRetries svc) = (i + 1 < a + Suc n)"
        proof (cases "i = a")
          case True
          then show ?thesis using \<open>retryable_error e \<and> a < maxRetries svc\<close> Inl n1
            by (simp add: retryable_outcome_def)
        next
          case False
          then have "Suc a \<le> i \<and> i < Suc a + n" using i by simp
          then show ?thesis using ret by fastforce
        qed
      qed
      show ?thesis
        unfolding Let_def step snd_conv fst_conv am
        using n1 nb t r last1 last2 by simp
    qed
  qed
qed

lemma executeRequest_trace:
  "(let tr = snd (executeRequest svc nw payload); n = attempts_made tr in
      1 \<le> n \<and> n \<le> maxRetries svc + 1 \<and> tr = backoff_trace (retryDelay svc) 0 n
      \<and> (\<forall>i. i < n \<longrightarrow> ((retryable_outcome (nw payload i) \<and> i < maxRetries svc) = (i + 1 < n)))
      \<and> (\<forall>e. try_attempt (nw payload (n - 1)) = Inl e \<longrightarrow>
            fst (executeRequest svc nw payload) = Inl (raised_error svc e))
      \<and> (\<forall>d. try_attempt (nw payload (n - 1)) = Inr d \<longrightarrow>
            fst (executeRequest svc nw payload) = Inr d))"
  using executeRequest_from_trace [of 0 svc "nw payload"]
  by (simp add: executeRequest_def Let_def)

lemma example_client_constructed: "new_GenerationService (Some ''sk-test'') = Inr example_client"
  by (simp add: new_GenerationService_def new_OpenRouterService_def example_client_def
      or_string_def or_number_def)

lemma example_client_fields [simp]:
  "maxRetries example_client = 3" "retryDelay example_client = 1000"
  "timeout example_client = 90000" "currentResponseFormat example_client = Some json_object"
  "currentModelName example_client = MODEL_NAME"
  "currentSystemMessage example_client = systemMessage"
  "currentUserMessage example_client = []"
  by (simp_all add: example_client_def configureOpenRouter_def enableJsonMode_def
      setSystemMessage_def setModel_def)

lemma flaky_run:
  "snd (executeRequest example_client flaky_network example_payload) =
     [Fetch 0, Sleep 1000, Fetch 1, Sleep 2000, Fetch 2, Sleep 4000, Fetch 3]"
  by (simp add: executeRequest_def executeRequest_from_step flaky_network_def http_response_def
      try_attempt_def ok_def classify_status_def retryable_error_def)

text \<open>
  C6. In \<open>executeRequest\<close> the attempts are numbered from 0 and there are at least one and at
  most \<open>maxRetries + 1\<close> of them. The trace is that of the backoff schedule: every attempt
  but the last made is followed by a sleep of \<open>retryDelay * 2 ^ attempt\<close> and nothing else
  happens. Attempt \<open>i\<close> is followed by another one exactly when it failed with a retryable
  error and \<open>i < maxRetries\<close>; so a retryable error on attempt \<open>maxRetries\<close> ends the
  run without a sleep, and the error of the last attempt is the one raised.
\<close>

theorem executeRequest_backoff_schedule:
  "(let tr = snd (executeRequest svc nw payload); n = attempts_made tr in
      1 \<le> n \<and> n \<le> maxRetries svc + 1
      \<and> tr = backoff_trace (retryDelay svc) 0 n
      \<and> sleeps tr = map (\<lambda>i. retryDelay svc * 2 ^ i) [0..<n - 1]
      \<and> (\<forall>i. i < n \<longrightarrow> ((retryable_outcome (nw payload i) \<and> i < maxRetries svc) = (i + 1 < n)))
      \<and> (\<forall>e. try_attempt (nw payload (n - 1)) = Inl e \<longrightarrow>
            fst (executeRequest svc nw payload) = Inl (raised_error svc e)))"
proof -
  define tr where "tr = snd (executeRequest svc nw payload)"
  define n where "n = attempts_made tr"
  have main: "1 \<le> n \<and> n \<le> maxRetries svc + 1 \<and> tr = backoff_trace (retryDelay svc) 0 n
      \<and> (\<forall>i. i < n \<longrightarrow> ((retryable_outcome (nw payload i) \<and> i < maxRetries svc) = (i + 1 < n)))
      \<and> (\<forall>e. try_attempt (nw payload (n - 1)) = Inl e \<longrightarrow>
            fst (executeRequest svc nw payload) = Inl (raised_error svc e))"
    using executeRequest_trace [of svc nw payload] by (simp add: Let_def tr_def n_def)
  then have "tr = backoff_trace (retryDelay svc) 0 n" by simp
  then have "sleeps tr = map (\<lambda>i. retryDelay svc * 2 ^ i) [0..<n - 1]"
    using sleeps_backoff [of "retryDelay svc" 0 n] by simp
  with main show ?thesis by (simp add: Let_def tr_def n_def)
qed

theorem executeRequest_backoff_schedule_witness:
  "attempts_made (snd (executeRequest example_client flaky_network example_payload)) = 4
   \<and> sleeps (snd (executeRequest example_client flaky_network example_payload))
       = [1000, 2000, 4000]
   \<and> retryable_outcome (flaky_network example_payload 3) \<and> maxRetries example_client = 3
   \<and> try_attempt (flaky_network example_payload 3)
       = Inl (OpenRouterError ''HTTP 503: '' HTTP_ERROR (Some 503) True)
   \<and> fst (executeRequest example_client flaky_network example_payload)
       = Inl (raised_error example_client (OpenRouterError ''HTTP 503: '' HTTP_ERROR (Some 503) True))"
proof -
  have last: "try_attempt (flaky_network example_payload 3)
       = Inl (OpenRouterError ''HTTP 503: '' HTTP_ERROR (Some 503) True)"
    by (simp add: flaky_network_def http_response_def try_attempt_def ok_def classify_status_def
        or_string_def string_of_nat.simps)
  have r: "retryable_outcome (flaky_network example_payload 3)"
    by (simp add: retryable_outcome_def last retryable_error_def)
  have n: "attempts_made (snd (executeRequest example_client flaky_network example_payload)) = 4"
    by (simp add: flaky_run)
  have "\<forall>e. try_attempt (flaky_network example_payload (4 - 1)) = Inl e \<longrightarrow>
          fst (executeRequest example_client flaky_network example_payload)
            = Inl (raised_error example_client e)"
    using executeRequest_backoff_schedule [of example_client flaky_network example_payload]
    unfolding Let_def n by blast
  then have raised: "fst (executeRequest example_client flaky_network example_payload)
       = Inl (raised_error example_client (OpenRouterError ''HTTP 503: '' HTTP_ERROR (Some 503) True))"
    using last by simp
  show ?thesis
    using n last r raised by (simp add: flaky_run)
qed

lemma attempts_at_most:
  "attempts_made (snd (executeRequest svc nw payload)) \<le> maxRetries svc + 1"
  using executeRequest_trace [of svc nw payload] by (simp add: Let_def)

lemma attempts_all_retryable:
  assumes "\<forall>i. i \<le> maxRetries svc \<longrightarrow> retryable_outcome (nw payload i)"
  shows "attempts_made (snd (executeRequest svc nw payload)) = maxRetries svc + 1"
proof -
  define n where "n = attempts_made (snd (executeRequest svc nw payload))"
  have n1: "1 \<le> n" and nb: "n \<le> maxRetries svc + 1"
    and ret: "\<forall>i. i < n \<longrightarrow> ((retryable_outcome (nw payload i) \<and> i < maxRetries svc) = (i + 1 < n))"
    using executeRequest_trace [of svc nw payload] by (simp_all add: Let_def n_def)
  have "\<not> n < maxRetries svc + 1"
  proof
    assume lt: "n < maxRetries svc + 1"
    have "n - 1 < n" using n1 by simp
    with ret have "(retryable_outcome (nw payload (n - 1)) \<and> n - 1 < maxRetries svc) = (n - 1 + 1 < n)"
      by blast
    moreover have "retryable_outcome (nw payload (n - 1))" using assms lt by simp
    moreover have "n - 1 < maxRetries svc" using lt n1 by simp
    ultimately show False using n1 by simp
  qed
  with nb show ?thesis by (simp add: n_def)
qed


text \<open>
  C10. A client constructed with an explicit zero for \<open>timeout\<close>, \<open>maxRetries\<close> or
  \<open>retryDelay\<close> has the default instead (60000, 3, 1000), since each is merged with
  \<open>||\<close>. So \<open>maxRetries = 0\<close> does not switch retries off: such a client makes at most
  four attempts, and exactly four when each of the first four fails with a retryable error.
\<close>

theorem explicit_zero_config_yields_defaults:
  assumes "new_OpenRouterService env_key config = Inr svc"
  shows "(cfg_timeout config = Some 0 \<longrightarrow> timeout svc = 60000)
       \<and> (cfg_maxRetries config = Some 0 \<longrightarrow> maxRetries svc = 3)
       \<and> (cfg_retryDelay config = Some 0 \<longrightarrow> retryDelay svc = 1000)
       \<and> (cfg_maxRetries config = Some 0 \<longrightarrow>
            (\<forall>nw payload.
               attempts_made (snd (executeRequest svc nw payload)) \<le> 4
               \<and> ((\<forall>i. i < 4 \<longrightarrow> retryable_outcome (nw payload i)) \<longrightarrow>
                    attempts_made (snd (executeRequest svc nw payload)) = 4)))"
proof -
  from assms have t: "timeout svc = or_number (cfg_timeout config) 60000"
    and m: "maxRetries svc = or_number (cfg_maxRetries config) 3"
    and d: "retryDelay svc = or_number (cfg_retryDelay config) 1000"
    by (auto simp: new_OpenRouterService_def Let_def split: if_splits)
  have four: "cfg_maxRetries config = Some 0 \<longrightarrow>
            (\<forall>nw payload.
               attempts_made (snd (executeRequest svc nw payload)) \<le> 4
               \<and> ((\<forall>i. i < 4 \<longrightarrow> retryable_outcome (nw payload i)) \<longrightarrow>
                    attempts_made (snd (executeRequest svc nw payload)) = 4))"
  proof (intro impI allI conjI)
    fix nw payload
    assume z: "cfg_maxRetries config = Some 0"
    then have m3: "maxRetries svc = 3" using m by (simp add: or_number_def)
    show "attempts_made (snd (executeRequest svc nw payload)) \<le> 4"
      using attempts_at_most [of svc nw payload] m3 by simp
    assume "\<forall>i. i < 4 \<longrightarrow> retryable_outcome (nw payload i)"
    then have "\<forall>i. i \<le> maxRetries svc \<longrightarrow> retryable_outcome (nw payload i)"
      using m3 by simp
    then show "attempts_made (snd (executeRequest svc nw payload)) = 4"
      using attempts_all_retryable [of svc nw payload] m3 by simp
  qed
  show ?thesis using t m d four by (simp add: or_number_def)
qed

theorem explicit_zero_config_yields_defaults_witness:
  "new_OpenRouterService None zero_config = Inr zero_client
   \<and> cfg_timeout zero_config = Some 0 \<and> cfg_maxRetries zero_config = Some 0
   \<and> cfg_retryDelay zero_config = Some 0
   \<and> timeout zero_client = 60000 \<and> maxRetries zero_client = 3 \<and> retryDelay zero_client = 1000
   \<and> retryable_outcome (rate_limited_network example_payload 0)
   \<and> retryable_outcome (rate_limited_network example_payload 3)
   \<and> attempts_made (snd (executeRequest zero_client rate_limited_network example_payload)) = 4"
proof -
  have c: "new_OpenRouterService None zero_config = Inr zero_client"
    by (simp add: new_OpenRouterService_def zero_config_def zero_client_def or_string_def
        or_number_def)
  have r: "\<forall>i. i < 4 \<longrightarrow> retryable_outcome (rate_limited_network example_payload i)"
    by (simp add: retryable_outcome_def rate_limited_network_def http_response_def
        try_attempt_def ok_def classify_status_def retryable_error_def)
  have z: "cfg_timeout zero_config = Some 0 \<and> cfg_maxRetries zero_config = Some 0
   \<and> cfg_retryDelay zero_config = Some 0"
    by (simp add: zero_config_def)
  have n: "attempts_made (snd (executeRequest zero_client rate_limited_network example_payload)) = 4"
    using explicit_zero_config_yields_defaults [OF c] z r by simp
  have d: "timeout zero_client = 60000 \<and> maxRetries zero_client = 3 \<and> retryDelay zero_client = 1000"
    using explicit_zero_config_yields_defaults [OF c] z by simp
  show ?thesis using c z d r n by simp
qed


lemma try_attempt_status:
  assumes "\<not> ok response" and "body response \<noteq> Body_null"
  shows "\<exists>m. try_attempt (Fetch_response response) =
           Inl (OpenRouterError m (fst (classify_status (status response)))
                  (Some (status response)) (snd (classify_status (status response))))"
  using assms by (cases "body response") (simp_all add: try_attempt_def)

lemma classify_status_cases:
  "classify_status st =
     (if st = 401 \<or> st = 403 then (AUTHENTICATION_ERROR, False)
      else if st = 429 then (RATE_LIMIT_ERROR, True)
      else if 500 \<le> st then (HTTP_ERROR, True)
      else (HTTP_ERROR, False))"
  by (simp add: classify_status_def)

lemma not_retryable_raised_at_once:
  assumes "try_attempt (nw payload 0) = Inl e" and "\<not> retryable_error e"
  shows "executeRequest svc nw payload = (Inl (raised_error svc e), [Fetch 0])"
  using assms by (simp add: executeRequest_def executeRequest_from_step)

text \<open>
  C2. The status of a failed response decides the code and the retryable flag as listed
  (\<open>try_attempt_status\<close>, \<open>classify_status_cases\<close>) and an error that is not retryable
  is raised after its attempt (\<open>not_retryable_raised_at_once\<close>), provided the body of the
  response is not the JSON value \<open>null\<close>. For an endpoint that always answers 401 with the
  body \<open>null\<close>, reading \<open>errorData.error\<close> throws a \<open>TypeError\<close> inside the \<open>try\<close>,
  the \<open>catch\<close> takes it for a transport failure, and the client makes all four attempts
  with their sleeps and raises \<open>NETWORK_ERROR\<close>.
\<close>

theorem unauthorized_with_null_body_is_retried:
  "executeRequest example_client unauthorized_null_network example_payload =
     (Inl (OpenRouterError ''Network error: Cannot read properties of null'' NETWORK_ERROR None True),
      [Fetch 0, Sleep 1000, Fetch 1, Sleep 2000, Fetch 2, Sleep 4000, Fetch 3])"
  by (simp add: executeRequest_def executeRequest_from_step unauthorized_null_network_def
      http_response_def try_attempt_def ok_def retryable_error_def raised_error_def)


lemma sendChatMessage_attempt:
  "map_option md_attempt
     (getLastRequestMetadata (fst (snd (sendChatMessage now parse nw svc m)))) = Some 1"
  by (simp add: sendChatMessage_def getLastRequestMetadata_def split: prod.splits sum.splits)

text \<open>
  C9. The metadata stored by \<open>sendChatMessage\<close> always has the attempt count 1
  (\<open>sendChatMessage_attempt\<close>). For a call that is answered 429 twice and then 200, three
  attempts are made and the call succeeds, and the metadata of the call still says 1.
\<close>

theorem metadata_attempt_count_after_two_retries:
  "(case sendChatMessage (\<lambda>k. int k) (\<lambda>t. Inr ()) recovering_network example_client (Some ''Hello'') of
      (result, svc', tr) \<Rightarrow>
        result = Inr (Decoded ()) \<and> attempts_made tr = 3
        \<and> map_option md_attempt (getLastRequestMetadata svc') = Some 1
        \<and> map_option success (getLastRequestMetadata svc') = Some True)"
  by (simp add: sendChatMessage_def try_send_def or_string_def executeRequest_def
      executeRequest_from_step recovering_network_def http_response_def completion_def
      try_attempt_def ok_def classify_status_def retryable_error_def parseResponse_def
      getLastRequestMetadata_def)

section \<open>The generation service\<close>

lemma logGenerationError_returns:
  "logGenerationError w error sourceText model_name userId elapsed
     = (None, [Insert_error_log (error_log_row w error sourceText model_name userId)])"
  by (simp add: logGenerationError_def error_log_row_def Let_def split: log_insert_outcome.splits)

lemma error_log_row_log_independent:
  "error_log_row (w\<lparr>insert_error_log := f\<rparr>) error sourceText model_name userId
     = error_log_row w error sourceText model_name userId"
  by (simp add: error_log_row_def)

lemma callAIService_log_independent:
  "callAIService (w\<lparr>insert_error_log := f\<rparr>) openRouter sourceText
     = callAIService w openRouter sourceText"
  by (simp add: callAIService_def)

lemma try_generateFlashcards_model_failure:
  assumes "callAIService w openRouter sourceText = (Inl error, openRouter', tr)"
  shows "try_generateFlashcards w openRouter sourceText userId
           = (Inl error, openRouter', map Client tr)"
  by (simp add: try_generateFlashcards_def assms)

lemma try_generateFlashcards_insert:
  assumes "callAIService w openRouter sourceText = (Inr proposals, openRouter', tr)"
  shows "try_generateFlashcards w openRouter sourceText userId
           = (case insert_generation w
                     (generation_row w openRouter' (length proposals) sourceText userId) of
                Generation_inserted new_id \<Rightarrow>
                  (Inr \<lparr> created_generation_id = new_id, flashcards_proposals = proposals,
                         created_count = length proposals \<rparr>,
                   openRouter',
                   map Client tr @ [Insert_generation
                     (generation_row w openRouter' (length proposals) sourceText userId)])
              | Generation_error m \<Rightarrow>
                  (Inl (JsError ''Error'' ''Failed to save generation metadata''), openRouter',
                   map Client tr @ [Insert_generation
                     (generation_row w openRouter' (length proposals) sourceText userId)])
              | Generation_rejected e \<Rightarrow>
                  (Inl e, openRouter',
                   map Client tr @ [Insert_generation
                     (generation_row w openRouter' (length proposals) sourceText userId)]))"
  by (simp add: try_generateFlashcards_def assms generation_row_def Let_def
      cong: generation_insert_outcome.case_cong option.case_cong if_cong)

lemma try_generateFlashcards_persistence_failure:
  assumes "callAIService w openRouter sourceText = (Inr proposals, openRouter', tr)"
    and "persistence_failure
           (insert_generation w (generation_row w openRouter' (length proposals) sourceText userId))
         = Some error"
  shows "try_generateFlashcards w openRouter sourceText userId
           = (Inl error, openRouter',
              map Client tr @ [Insert_generation
                (generation_row w openRouter' (length proposals) sourceText userId)])"
  using assms(2) unfolding try_generateFlashcards_insert [OF assms(1)]
  by (cases "insert_generation w
               (generation_row w openRouter' (length proposals) sourceText userId)") simp_all

lemma generation_row_log_independent:
  "generation_row (w\<lparr>insert_error_log := f\<rparr>) openRouter' n sourceText userId
     = generation_row w openRouter' n sourceText userId"
  by (simp add: generation_row_def
      cong: option.case_cong if_cong)

lemma try_generateFlashcards_log_independent:
  "try_generateFlashcards (w\<lparr>insert_error_log := f\<rparr>) openRouter sourceText userId
     = try_generateFlashcards w openRouter sourceText userId"
proof -
  obtain r o' tr where c: "callAIService w openRouter sourceText = (r, o', tr)"
    by (cases "callAIService w openRouter sourceText") auto
  then have c': "callAIService (w\<lparr>insert_error_log := f\<rparr>) openRouter sourceText = (r, o', tr)"
    by (simp add: callAIService_log_independent)
  show ?thesis
  proof (cases r)
    case (Inl error)
    then show ?thesis
      using try_generateFlashcards_model_failure [of w openRouter sourceText error o' tr userId]
        try_generateFlashcards_model_failure
          [of "w\<lparr>insert_error_log := f\<rparr>" openRouter sourceText error o' tr userId]
        c c' by simp
  next
    case (Inr proposals)
    then show ?thesis
      using try_generateFlashcards_insert [of w openRouter sourceText proposals o' tr userId]
        try_generateFlashcards_insert
          [of "w\<lparr>insert_error_log := f\<rparr>" openRouter sourceText proposals o' tr userId]
        c c' by (simp add: generation_row_log_independent
          cong: generation_insert_outcome.case_cong)
  qed
qed

lemma try_generateFlashcards_hash:
  assumes "try_generateFlashcards w openRouter sourceText userId = (r, openRouter', tr)"
    and "Insert_generation g \<in> set tr"
  shows "source_text_hash g = sha256_hex w sourceText"
  using assms
  by (auto simp: try_generateFlashcards_def Let_def
      split: prod.splits sum.splits generation_insert_outcome.splits)

lemma generateFlashcards_failure:
  assumes "try_generateFlashcards w openRouter sourceText userId = (Inl error, openRouter', tr0)"
  shows "generateFlashcards w openRouter sourceText userId
           = (Inl error, openRouter',
              tr0 @ [Insert_error_log (error_log_row w error sourceText MODEL_NAME userId)])"
  by (simp add: generateFlashcards_def assms logGenerationError_returns)

lemma generateFlashcards_success:
  assumes "try_generateFlashcards w openRouter sourceText userId = (Inr result, openRouter', tr0)"
  shows "generateFlashcards w openRouter sourceText userId = (Inr result, openRouter', tr0)"
  by (simp add: generateFlashcards_def assms)

lemma generateFlashcards_log_independent:
  "generateFlashcards (w\<lparr>insert_error_log := f\<rparr>) openRouter sourceText userId
     = generateFlashcards w openRouter sourceText userId"
proof -
  obtain r o' tr where t: "try_generateFlashcards w openRouter sourceText userId = (r, o', tr)"
    by (cases "try_generateFlashcards w openRouter sourceText userId") auto
  then have t': "try_generateFlashcards (w\<lparr>insert_error_log := f\<rparr>) openRouter sourceText userId
                   = (r, o', tr)"
    by (simp add: try_generateFlashcards_log_independent)
  show ?thesis
  proof (cases r)
    case (Inl error)
    then show ?thesis
      using generateFlashcards_failure [of w openRouter sourceText userId error o' tr]
        generateFlashcards_failure
          [of "w\<lparr>insert_error_log := f\<rparr>" openRouter sourceText userId error o' tr]
        t t' by (simp add: error_log_row_log_independent)
  next
    case (Inr result)
    then show ?thesis
      using generateFlashcards_success [of w openRouter sourceText userId result o' tr]
        generateFlashcards_success
          [of "w\<lparr>insert_error_log := f\<rparr>" openRouter sourceText userId result o' tr]
        t t' by simp
  qed
qed

lemma generateFlashcards_raised:
  assumes "generateFlashcards w openRouter sourceText userId = (Inl e, openRouter', tr)"
  shows "\<exists>tr0. try_generateFlashcards w openRouter sourceText userId = (Inl e, openRouter', tr0)
         \<and> tr = tr0 @ [Insert_error_log (error_log_row w e sourceText MODEL_NAME userId)]"
proof -
  obtain r o' tr0 where t: "try_generateFlashcards w openRouter sourceText userId = (r, o', tr0)"
    by (cases "try_generateFlashcards w openRouter sourceText userId") auto
  show ?thesis
  proof (cases r)
    case (Inl error)
    then show ?thesis
      using generateFlashcards_failure [of w openRouter sourceText userId error o' tr0] t assms
      by simp
  next
    case (Inr result)
    then show ?thesis
      using generateFlashcards_success [of w openRouter sourceText userId result o' tr0] t assms
      by simp
  qed
qed

text \<open>
  C1. Every failure of an attempt is logged and raised again. When \<open>callAIService\<close> throws
  (the model call failed, or the answer has not the shape expected), \<open>generateFlashcards\<close>
  inserts one row into \<open>generation_error_logs\<close> and then raises that same error. When the
  model call succeeds and the insert into \<open>generations\<close> fails (the store answers with an
  error or rejects), it inserts one row into \<open>generation_error_logs\<close> after the
  \<open>generations\<close> row and then raises the error of the persistence. The log row has the hash
  of the same source text as the \<open>generations\<close> row, the length of the text, the model and
  the user. Whatever the store answers to the insert of the log row, a rejection included,
  the result and the trace of \<open>generateFlashcards\<close> are the same. Conversely, whenever
  \<open>generateFlashcards\<close> raises an error, the last thing it did is the insert of the log
  row of that error.
\<close>

theorem generateFlashcards_logs_then_rethrows:
  "(\<forall>error openRouter' tr.
       callAIService w openRouter sourceText = (Inl error, openRouter', tr) \<longrightarrow>
       generateFlashcards w openRouter sourceText userId
         = (Inl error, openRouter',
            map Client tr
              @ [Insert_error_log (error_log_row w error sourceText MODEL_NAME userId)]))
   \<and> (\<forall>proposals openRouter' tr error.
       callAIService w openRouter sourceText = (Inr proposals, openRouter', tr)
       \<and> persistence_failure
           (insert_generation w
              (generation_row w openRouter' (length proposals) sourceText userId)) = Some error
       \<longrightarrow>
       generateFlashcards w openRouter sourceText userId
         = (Inl error, openRouter',
            map Client tr
              @ [Insert_generation
                   (generation_row w openRouter' (length proposals) sourceText userId),
                 Insert_error_log (error_log_row w error sourceText MODEL_NAME userId)]))
   \<and> (\<forall>error openRouter' n.
       source_text_hash (error_log_row w error sourceText MODEL_NAME userId)
         = sha256_hex w sourceText
       \<and> source_text_hash (generation_row w openRouter' n sourceText userId)
           = source_text_hash (error_log_row w error sourceText MODEL_NAME userId)
       \<and> source_text_length (error_log_row w error sourceText MODEL_NAME userId)
           = length sourceText
       \<and> model (error_log_row w error sourceText MODEL_NAME userId) = MODEL_NAME
       \<and> row_user_id (error_log_row w error sourceText MODEL_NAME userId) = userId)
   \<and> (\<forall>f. generateFlashcards (w\<lparr>insert_error_log := f\<rparr>) openRouter sourceText userId
            = generateFlashcards w openRouter sourceText userId)
   \<and> (\<forall>e openRouter' tr.
       generateFlashcards w openRouter sourceText userId = (Inl e, openRouter', tr) \<longrightarrow>
       (\<exists>tr0. tr = tr0 @ [Insert_error_log (error_log_row w e sourceText MODEL_NAME userId)]))"
proof (intro conjI allI impI)
  fix error openRouter' tr
  assume "callAIService w openRouter sourceText = (Inl error, openRouter', tr)"
  then have "try_generateFlashcards w openRouter sourceText userId
               = (Inl error, openRouter', map Client tr)"
    by (rule try_generateFlashcards_model_failure)
  then show "generateFlashcards w openRouter sourceText userId
         = (Inl error, openRouter',
            map Client tr
              @ [Insert_error_log (error_log_row w error sourceText MODEL_NAME userId)])"
    by (rule generateFlashcards_failure)
next
  fix proposals openRouter' tr error
  assume a: "callAIService w openRouter sourceText = (Inr proposals, openRouter', tr)
       \<and> persistence_failure
           (insert_generation w
              (generation_row w openRouter' (length proposals) sourceText userId)) = Some error"
  then have "try_generateFlashcards w openRouter sourceText userId
           = (Inl error, openRouter',
              map Client tr @ [Insert_generation
                (generation_row w openRouter' (length proposals) sourceText userId)])"
    using try_generateFlashcards_persistence_failure by blast
  then show "generateFlashcards w openRouter sourceText userId
         = (Inl error, openRouter',
            map Client tr
              @ [Insert_generation
                   (generation_row w openRouter' (length proposals) sourceText userId),
                 Insert_error_log (error_log_row w error sourceText MODEL_NAME userId)])"
    using generateFlashcards_failure by fastforce
next
  fix f
  show "generateFlashcards (w\<lparr>insert_error_log := f\<rparr>) openRouter sourceText userId
            = generateFlashcards w openRouter sourceText userId"
    by (rule generateFlashcards_log_independent)
next
  fix e openRouter' tr
  assume "generateFlashcards w openRouter sourceText userId = (Inl e, openRouter', tr)"
  then show "\<exists>tr0. tr = tr0 @ [Insert_error_log (error_log_row w e sourceText MODEL_NAME userId)]"
    using generateFlashcards_raised by blast
qed (simp_all add: error_log_row_def generation_row_def)

lemmas run_defs =
  generateFlashcards_def try_generateFlashcards_def callAIService_def logGenerationError_def
  sendChatMessage_def try_send_def or_string_def executeRequest_def executeRequest_from_step
  example_world_def http_response_def completion_def example_content_def try_attempt_def ok_def
  parseResponse_def getLastRequestMetadata_def three_cards_def example_source_text_def
  catch_callAIService_def classify_status_def retryable_error_def raised_error_def Let_def
  json_of_card_def

lemma example_send:
  "sendChatMessage (client_now example_world) (JSON_parse example_world) (net example_world)
     example_client
     (Some (''Generate 5 educational flashcards from the following text:'' @ nl @ nl
              @ example_source_text))
   = (Inr (Decoded (Decoded_value (Some (map json_of_card three_cards)))),
      example_client_after, [Fetch 0])"
  by (simp add: sendChatMessage_def try_send_def or_string_def executeRequest_def
      executeRequest_from_step example_world_def http_response_def completion_def
      example_content_def try_attempt_def ok_def parseResponse_def example_client_after_def)

lemma failing_store_call:
  "callAIService failing_store_world example_client example_source_text
     = (Inr example_proposals, example_client_after, [Fetch 0])"
  by (simp add: run_defs failing_store_world_def example_proposals_def example_client_after_def)

lemma failing_store_row:
  "generation_row failing_store_world example_client_after 3 example_source_text ''user-1''
     = \<lparr> row_user_id = ''user-1'', model = MODEL_NAME,
         source_text_hash = ''digest of '' @ example_source_text, source_text_length = 1000,
         generated_count = 3, generation_duration = 14 \<rparr>"
  by (simp add: generation_row_def failing_store_world_def example_world_def
      example_client_after_def getLastRequestMetadata_def example_source_text_def)

theorem generateFlashcards_logs_then_rethrows_witness:
  "callAIService failing_store_world example_client example_source_text
     = (Inr example_proposals, example_client_after, [Fetch 0])
   \<and> persistence_failure
        (insert_generation failing_store_world
           (generation_row failing_store_world example_client_after (length example_proposals)
              example_source_text ''user-1''))
       = Some (JsError ''Error'' ''Failed to save generation metadata'')
   \<and> insert_error_log failing_store_world
        (error_log_row failing_store_world
           (JsError ''Error'' ''Failed to save generation metadata'') example_source_text
           MODEL_NAME ''user-1'')
       = Log_rejected (JsError ''Error'' ''connection refused'')
   \<and> generateFlashcards failing_store_world example_client example_source_text ''user-1''
       = (Inl (JsError ''Error'' ''Failed to save generation metadata''), example_client_after,
          [Client (Fetch 0),
           Insert_generation
             \<lparr> row_user_id = ''user-1'', model = MODEL_NAME,
               source_text_hash = ''digest of '' @ example_source_text,
               source_text_length = 1000, generated_count = 3, generation_duration = 14 \<rparr>,
           Insert_error_log
             \<lparr> row_user_id = ''user-1'', model = MODEL_NAME,
               source_text_hash = ''digest of '' @ example_source_text,
               source_text_length = 1000, error_code = ''Error'',
               error_message = ''Failed to save generation metadata'' \<rparr>])
   \<and> (\<forall>f. generateFlashcards (failing_store_world\<lparr>insert_error_log := f\<rparr>) example_client
              example_source_text ''user-1''
            = generateFlashcards failing_store_world example_client example_source_text
                ''user-1'')"
proof -
  have l: "length example_proposals = 3" by (simp add: example_proposals_def)
  have pf: "persistence_failure
        (insert_generation failing_store_world
           (generation_row failing_store_world example_client_after (length example_proposals)
              example_source_text ''user-1''))
       = Some (JsError ''Error'' ''Failed to save generation metadata'')"
    by (simp add: failing_store_world_def)
  have rej: "insert_error_log failing_store_world
        (error_log_row failing_store_world
           (JsError ''Error'' ''Failed to save generation metadata'') example_source_text
           MODEL_NAME ''user-1'')
       = Log_rejected (JsError ''Error'' ''connection refused'')"
    by (simp add: failing_store_world_def)
  have row: "error_log_row failing_store_world
           (JsError ''Error'' ''Failed to save generation metadata'') example_source_text
           MODEL_NAME ''user-1''
       = \<lparr> row_user_id = ''user-1'', model = MODEL_NAME,
               source_text_hash = ''digest of '' @ example_source_text,
               source_text_length = 1000, error_code = ''Error'',
               error_message = ''Failed to save generation metadata'' \<rparr>"
    by (simp add: error_log_row_def failing_store_world_def example_world_def
        example_source_text_def)
  note inst = generateFlashcards_logs_then_rethrows
    [of failing_store_world example_client example_source_text "''user-1''"]
  have run: "generateFlashcards failing_store_world example_client example_source_text ''user-1''
       = (Inl (JsError ''Error'' ''Failed to save generation metadata''), example_client_after,
          map Client [Fetch 0]
            @ [Insert_generation
                 (generation_row failing_store_world example_client_after
                    (length example_proposals) example_source_text ''user-1''),
               Insert_error_log
                 (error_log_row failing_store_world
                    (JsError ''Error'' ''Failed to save generation metadata'')
                    example_source_text MODEL_NAME ''user-1'')])"
    using inst failing_store_call pf by blast
  have indep: "\<forall>f. generateFlashcards (failing_store_world\<lparr>insert_error_log := f\<rparr>)
              example_client example_source_text ''user-1''
            = generateFlashcards failing_store_world example_client example_source_text
                ''user-1''"
    using inst by blast
  have run': "generateFlashcards failing_store_world example_client example_source_text ''user-1''
       = (Inl (JsError ''Error'' ''Failed to save generation metadata''), example_client_after,
          [Client (Fetch 0),
           Insert_generation
             \<lparr> row_user_id = ''user-1'', model = MODEL_NAME,
               source_text_hash = ''digest of '' @ example_source_text,
               source_text_length = 1000, generated_count = 3, generation_duration = 14 \<rparr>,
           Insert_error_log
             \<lparr> row_user_id = ''user-1'', model = MODEL_NAME,
               source_text_hash = ''digest of '' @ example_source_text,
               source_text_length = 1000, error_code = ''Error'',
               error_message = ''Failed to save generation metadata'' \<rparr>])"
    unfolding run l failing_store_row row by simp
  show ?thesis
    by (rule conjI [OF failing_store_call conjI [OF pf conjI [OF rej conjI [OF run' indep]]]])
qed

lemma to_proposals_json_of_card:
  "to_proposals (map json_of_card cards)
     = Inr (map (\<lambda>card. \<lparr> card_front = take 200 (card_front card),
                           card_back = take 500 (card_back card),
                           source = ''ai-full'' \<rparr>) cards)"
  by (induction cards) (simp_all add: json_of_card_def)

lemma callAIService_success:
  assumes "sendChatMessage (client_now w) (JSON_parse w) (net w) openRouter
             (Some (''Generate 5 educational flashcards from the following text:'' @ nl @ nl
                      @ sourceText))
           = (Inr (Decoded (Decoded_value (Some (map json_of_card cards)))), openRouter', tr)"
  shows "callAIService w openRouter sourceText =
           (Inr (map (\<lambda>card. \<lparr> card_front = take 200 (card_front card),
                                 card_back = take 500 (card_back card),
                                 source = ''ai-full'' \<rparr>) cards),
            openRouter', tr)"
  using assms by (simp add: callAIService_def to_proposals_json_of_card)

text \<open>
  C4, as stated, fails: the decoded answer is cast to \<open>AIResponse\<close> without a check, and
  for an array of three elements whose second has no string front, reading
  \<open>card.front.substring\<close> throws a \<open>TypeError\<close>; \<open>callAIService\<close> and
  \<open>generateFlashcards\<close> fail, and the failure is logged.
\<close>

theorem callAIService_malformed_card_counterexample:
  "fst (sendChatMessage (client_now malformed_world) (JSON_parse malformed_world)
          (net malformed_world) example_client
          (Some (''Generate 5 educational flashcards from the following text:'' @ nl @ nl
                   @ example_source_text)))
     = Inr (Decoded (Decoded_value (Some malformed_cards)))
   \<and> length malformed_cards = 3
   \<and> fst (callAIService malformed_world example_client example_source_text)
       = Inl (JsError ''TypeError'' ''Cannot read properties of undefined'')
   \<and> fst (generateFlashcards malformed_world example_client example_source_text ''user-1'')
       = Inl (JsError ''TypeError'' ''Cannot read properties of undefined'')"
  by (simp add: run_defs malformed_world_def malformed_cards_def)

text \<open>
  C4, amended. When the client returns a decoded answer whose \<open>flashcards\<close> is an array of
  cards that each have a string front and a string back, of any length, \<open>callAIService\<close>
  does not fail: it returns one proposal per card, in order, with the front cut to at most
  200 characters, the back to at most 500 and the source \<open>ai-full\<close>; and when the store
  accepts the insert into \<open>generations\<close>, \<open>generateFlashcards\<close> returns these proposals
  and their number.
\<close>

theorem callAIService_accepts_any_count:
  assumes "sendChatMessage (client_now w) (JSON_parse w) (net w) openRouter
             (Some (''Generate 5 educational flashcards from the following text:'' @ nl @ nl
                      @ sourceText))
           = (Inr (Decoded (Decoded_value (Some (map json_of_card cards)))), openRouter', tr)"
  shows "(let proposals = map (\<lambda>card. \<lparr> card_front = take 200 (card_front card),
                                          card_back = take 500 (card_back card),
                                          source = ''ai-full'' \<rparr>) cards
          in callAIService w openRouter sourceText = (Inr proposals, openRouter', tr)
           \<and> length proposals = length cards
           \<and> (\<forall>i. i < length cards \<longrightarrow>
                 card_front (proposals ! i) = take 200 (card_front (cards ! i))
               \<and> card_back (proposals ! i) = take 500 (card_back (cards ! i))
               \<and> length (card_front (proposals ! i)) \<le> 200
               \<and> length (card_back (proposals ! i)) \<le> 500
               \<and> source (proposals ! i) = ''ai-full'')
           \<and> (\<forall>new_id. (\<forall>row. insert_generation w row = Generation_inserted new_id) \<longrightarrow>
                 fst (generateFlashcards w openRouter sourceText userId)
                   = Inr \<lparr> created_generation_id = new_id, flashcards_proposals = proposals,
                           created_count = length cards \<rparr>))"
proof -
  define proposals where
    "proposals = map (\<lambda>card. \<lparr> card_front = take 200 (card_front card),
                                 card_back = take 500 (card_back card),
                                 source = ''ai-full'' \<rparr>) cards"
  have c: "callAIService w openRouter sourceText = (Inr proposals, openRouter', tr)"
    using callAIService_success [OF assms] by (simp add: proposals_def)
  have l: "length proposals = length cards" by (simp add: proposals_def)
  have each: "\<forall>i. i < length cards \<longrightarrow>
          card_front (proposals ! i) = take 200 (card_front (cards ! i))
        \<and> card_back (proposals ! i) = take 500 (card_back (cards ! i))
        \<and> length (card_front (proposals ! i)) \<le> 200
        \<and> length (card_back (proposals ! i)) \<le> 500
        \<and> source (proposals ! i) = ''ai-full''"
    by (simp add: proposals_def)
  have gen: "\<forall>new_id. (\<forall>row. insert_generation w row = Generation_inserted new_id) \<longrightarrow>
          fst (generateFlashcards w openRouter sourceText userId)
            = Inr \<lparr> created_generation_id = new_id, flashcards_proposals = proposals,
                    created_count = length cards \<rparr>"
    by (simp add: generateFlashcards_def try_generateFlashcards_def c l Let_def)
  show ?thesis unfolding Let_def proposals_def [symmetric] using c l each gen by blast
qed

theorem callAIService_accepts_any_count_witness:
  "sendChatMessage (client_now example_world) (JSON_parse example_world) (net example_world)
     example_client
     (Some (''Generate 5 educational flashcards from the following text:'' @ nl @ nl
              @ example_source_text))
     = (Inr (Decoded (Decoded_value (Some (map json_of_card three_cards)))),
        example_client_after, [Fetch 0])
   \<and> length three_cards = 3
   \<and> (\<forall>row. insert_generation example_world row = Generation_inserted 42)
   \<and> callAIService example_world example_client example_source_text
       = (Inr example_proposals, example_client_after, [Fetch 0])
   \<and> fst (generateFlashcards example_world example_client example_source_text ''user-1'')
       = Inr \<lparr> created_generation_id = 42, flashcards_proposals = example_proposals,
               created_count = 3 \<rparr>"
proof -
  have ins: "\<forall>row. insert_generation example_world row = Generation_inserted 42"
    by (simp add: example_world_def)
  have p: "map (\<lambda>card. \<lparr> card_front = take 200 (card_front card),
                                 card_back = take 500 (card_back card),
                                 source = ''ai-full'' \<rparr>) three_cards = example_proposals"
    by (simp add: three_cards_def example_proposals_def)
  have B: "length three_cards = 3" by (simp add: three_cards_def)
  have cai: "callAIService example_world example_client example_source_text
       = (Inr example_proposals, example_client_after, [Fetch 0])"
    and gf: "fst (generateFlashcards example_world example_client example_source_text ''user-1'')
       = Inr \<lparr> created_generation_id = 42, flashcards_proposals = example_proposals,
               created_count = length three_cards \<rparr>"
    using callAIService_accepts_any_count [OF example_send, of "''user-1''"] ins
    unfolding Let_def p by blast+
  have D: "fst (generateFlashcards example_world example_client example_source_text ''user-1'')
       = Inr \<lparr> created_generation_id = 42, flashcards_proposals = example_proposals,
               created_count = 3 \<rparr>"
    unfolding gf B by simp
  show ?thesis
    by (rule conjI [OF example_send conjI [OF B conjI [OF ins conjI [OF cai D]]]])
qed

lemma catch_callAIService_remaps:
  "c \<in> {AUTHENTICATION_ERROR, RATE_LIMIT_ERROR, TIMEOUT_ERROR, NETWORK_ERROR} \<Longrightarrow>
   name_of (catch_callAIService (OpenRouterError m c st r)) = ''Error''
   \<and> message_of (catch_callAIService (OpenRouterError m c st r)) \<noteq> code_value c
   \<and> code_of (catch_callAIService (OpenRouterError m c st r)) = None"
  by (auto simp: catch_callAIService_def)

text \<open>
  C8. For the four classes of failure the error raised by \<open>callAIService\<close> is a plain
  \<open>Error\<close> with a user-facing message that differs from the code, and it carries no code
  (\<open>catch_callAIService_remaps\<close>). For an endpoint that always answers 401, the metadata of
  the client has the code \<open>AUTHENTICATION_ERROR\<close>, but the row inserted into
  \<open>generation_error_logs\<close> has the \<open>error_code\<close> \<open>Error\<close>, the name of the error
  raised, and the user-facing message.
\<close>

theorem error_log_row_of_authentication_failure:
  "fst (generateFlashcards unauthorized_world example_client example_source_text ''user-1'')
     = Inl (JsError ''Error'' ''AI service authentication failed. Please check your API key.'')
   \<and> snd (snd (generateFlashcards unauthorized_world example_client example_source_text ''user-1''))
     = [Client (Fetch 0),
        Insert_error_log
          \<lparr> row_user_id = ''user-1'', model = MODEL_NAME,
            source_text_hash = ''digest of '' @ example_source_text, source_text_length = 1000,
            error_code = ''Error'',
            error_message = ''AI service authentication failed. Please check your API key.'' \<rparr>]
   \<and> map_option errorCode
        (getLastRequestMetadata
           (fst (snd (generateFlashcards unauthorized_world example_client example_source_text
                        ''user-1''))))
       = Some (Some AUTHENTICATION_ERROR)
   \<and> ''Error'' \<noteq> code_value AUTHENTICATION_ERROR"
  by (simp add: run_defs unauthorized_world_def)

section \<open>Validation and the flashcard service\<close>


lemma generateFlashcardsCommandSchema_eq:
  "generateFlashcardsCommandSchema command =
     (if length (source_text command) < 1000
      then [([Key ''source_text''], ''Source text must be at least 1000 characters long'')]
      else if 10000 < length (source_text command)
      then [([Key ''source_text''], ''Source text cannot exceed 10000 characters'')]
      else [])"
  by (simp add: generateFlashcardsCommandSchema_def)

text \<open>
  C5. The validation of a generation request fails exactly when the length of the source
  text is below 1000 or above 10000, and succeeds with the request otherwise. When it fails,
  every issue is on the field \<open>source_text\<close> with a message, and the handler answers 400 with
  these issues and does nothing else: no request to the model and no insert.
\<close>

theorem generation_request_length_validation:
  "((\<exists>errors. safeParse generateFlashcardsCommandSchema (\<lambda>c. c) command = Failure errors)
      = (length (source_text command) < 1000 \<or> 10000 < length (source_text command)))
   \<and> (1000 \<le> length (source_text command) \<and> length (source_text command) \<le> 10000 \<longrightarrow>
        safeParse generateFlashcardsCommandSchema (\<lambda>c. c) command = Success command)
   \<and> (\<forall>errors. safeParse generateFlashcardsCommandSchema (\<lambda>c. c) command = Failure errors \<longrightarrow>
         errors \<noteq> []
       \<and> (\<forall>p m. (p, m) \<in> set errors \<longrightarrow> p = [Key ''source_text''] \<and> m \<noteq> [])
       \<and> (\<forall>field m. (field, m) \<in> set (details errors) \<longrightarrow> field = ''source_text'' \<and> m \<noteq> [])
       \<and> POST_generations w env_key (Some userId) (Body command)
           = ((400, Error_body ''Validation Error'' ''Invalid request data''
                      (Some (details errors))), []))"
  by (auto simp: safeParse_def generateFlashcardsCommandSchema_eq details_def
      POST_generations_def split: if_splits)

theorem generation_request_length_validation_witness:
  "length (source_text short_command) = 999
   \<and> safeParse generateFlashcardsCommandSchema (\<lambda>c. c) short_command
       = Failure [([Key ''source_text''], ''Source text must be at least 1000 characters long'')]
   \<and> POST_generations example_world (Some ''sk-test'') (Some ''user-1'') (Body short_command)
       = ((400, Error_body ''Validation Error'' ''Invalid request data''
                  (Some [(''source_text'', ''Source text must be at least 1000 characters long'')])),
          [])"
proof -
  have f: "safeParse generateFlashcardsCommandSchema (\<lambda>c. c) short_command
       = Failure [([Key ''source_text''], ''Source text must be at least 1000 characters long'')]"
    by (simp add: safeParse_def generateFlashcardsCommandSchema_eq short_command_def)
  from generation_request_length_validation [of short_command example_world "Some ''sk-test''" "''user-1''"] f
  show ?thesis by (simp add: short_command_def details_def)
qed


lemma createFlashcards_strip:
  "createFlashcards ins fs userId = createFlashcards ins (map strip fs) userId"
  by (simp add: createFlashcards_def strip_def comp_def)

lemma createFlashcards_rows:
  "batch \<in> set (snd (createFlashcards ins fs userId)) \<Longrightarrow>
   batch = map (\<lambda>flashcard.
                      \<lparr> card_front = card_front flashcard, card_back = card_back flashcard,
                        source = source flashcard, generation_id = generation_id flashcard,
                        user_id = userId \<rparr>) fs"
  by (auto simp: createFlashcards_def Let_def
      split: if_splits flashcards_insert_outcome.splits option.splits)

text \<open>
  C7. Every row that \<open>createFlashcards\<close> hands to the store has the \<open>user_id\<close> given by
  the caller. Two inputs that agree on \<open>front\<close>, \<open>back\<close>, \<open>source\<close> and
  \<open>generation_id\<close>, whatever else their objects carry (a \<open>user_id\<close> of their own, say),
  give the same insert and the same result.
\<close>

theorem createFlashcards_forces_user_id:
  "(\<forall>batch row. batch \<in> set (snd (createFlashcards ins fs userId)) \<and> row \<in> set batch \<longrightarrow>
       user_id row = userId)
   \<and> (map strip fs = map strip fs' \<longrightarrow>
        createFlashcards ins fs userId = createFlashcards ins fs' userId)"
proof (intro conjI allI impI)
  fix batch row
  assume "batch \<in> set (snd (createFlashcards ins fs userId)) \<and> row \<in> set batch"
  then show "user_id row = userId"
    using createFlashcards_rows [of batch ins fs userId] by auto
next
  assume "map strip fs = map strip fs'"
  then show "createFlashcards ins fs userId = createFlashcards ins fs' userId"
    using createFlashcards_strip [of ins fs userId] createFlashcards_strip [of ins fs' userId]
    by simp
qed

theorem createFlashcards_forces_user_id_witness:
  "map strip spoofed_flashcards = map strip plain_flashcards
   \<and> map user_id spoofed_flashcards = [''mallory'']
   \<and> createFlashcards example_store spoofed_flashcards ''alice''
       = createFlashcards example_store plain_flashcards ''alice''
   \<and> snd (createFlashcards example_store spoofed_flashcards ''alice'')
       = [[\<lparr> card_front = ''Q'', card_back = ''A'', source = ''manual'', generation_id = None,
             user_id = ''alice'' \<rparr>]]"
proof -
  have s: "map strip spoofed_flashcards = map strip plain_flashcards"
    by (simp add: spoofed_flashcards_def plain_flashcards_def strip_def)
  have r: "snd (createFlashcards example_store spoofed_flashcards ''alice'')
       = [[\<lparr> card_front = ''Q'', card_back = ''A'', source = ''manual'', generation_id = None,
             user_id = ''alice'' \<rparr>]]"
    by (simp add: createFlashcards_def spoofed_flashcards_def example_store_def)
  from createFlashcards_forces_user_id [of example_store spoofed_flashcards "''alice''" plain_flashcards] s r
  show ?thesis by (simp add: spoofed_flashcards_def)
qed


lemma item_schema_empty:
  "flashcardCreateDtoSchema p f = [] \<Longrightarrow> source_consistent f"
  by (auto simp: flashcardCreateDtoSchema_def source_consistent_def refinement_def
      split: if_splits)

lemma item_schema_violation:
  "violates_invariant f \<Longrightarrow>
   (p @ [Key ''generation_id''], refinement_message) \<in> set (flashcardCreateDtoSchema p f)"
  by (auto simp: flashcardCreateDtoSchema_def violates_invariant_def refinement_def
      refinement_message_def)

lemma violates_iff: "violates_invariant f = (\<not> source_consistent f)"
  by (auto simp: violates_invariant_def source_consistent_def)

lemma command_schema_empty:
  assumes "flashcardsCreateCommandSchema command = []"
  shows "\<forall>f \<in> set (command_flashcards command). source_consistent f"
proof
  fix f assume "f \<in> set (command_flashcards command)"
  then obtain i where i: "i < length (command_flashcards command)"
    and f: "command_flashcards command ! i = f"
    by (auto simp: in_set_conv_nth)
  then have "(i, f) \<in> set (enumerate 0 (command_flashcards command))"
    by (simp add: in_set_enumerate_eq)
  moreover from assms have "\<forall>x \<in> set (enumerate 0 (command_flashcards command)).
      (case x of (i, data) \<Rightarrow> flashcardCreateDtoSchema [Key ''flashcards'', Index i] data) = []"
    by (auto simp: flashcardsCreateCommandSchema_def split: if_splits)
  ultimately have "flashcardCreateDtoSchema [Key ''flashcards'', Index i] f = []"
    by fastforce
  then show "source_consistent f" by (rule item_schema_empty)
qed

lemma command_schema_violation:
  assumes "i < length (command_flashcards command)"
    and "violates_invariant (command_flashcards command ! i)"
  shows "([Key ''flashcards'', Index i, Key ''generation_id''], refinement_message)
           \<in> set (flashcardsCreateCommandSchema command)"
proof -
  have "(i, command_flashcards command ! i) \<in> set (enumerate 0 (command_flashcards command))"
    using assms(1) by (simp add: in_set_enumerate_eq)
  moreover have "([Key ''flashcards'', Index i] @ [Key ''generation_id''], refinement_message)
      \<in> set (flashcardCreateDtoSchema [Key ''flashcards'', Index i] (command_flashcards command ! i))"
    using assms(2) by (rule item_schema_violation)
  ultimately have "([Key ''flashcards'', Index i, Key ''generation_id''], refinement_message)
      \<in> set (concat (map (\<lambda>(i, data). flashcardCreateDtoSchema [Key ''flashcards'', Index i] data)
                 (enumerate 0 (command_flashcards command))))"
    unfolding set_concat by (auto intro!: bexI [of _ "(i, command_flashcards command ! i)"])
  then show ?thesis
    by (simp add: flashcardsCreateCommandSchema_def)
qed

lemma strip_consistent [simp]: "source_consistent (strip f) = source_consistent f"
  by (simp add: source_consistent_def strip_def)

lemma details_path:
  "(p, m) \<in> set errors \<Longrightarrow> (join ''.'' (map segment_text p), m) \<in> set (details errors)"
  by (force simp: details_def)

text \<open>
  C3. The validation of a create request succeeds only if every flashcard has a null
  \<open>generation_id\<close> when its source is \<open>manual\<close> and a non-null one when its source is
  \<open>ai-full\<close> or \<open>ai-edited\<close>. A request with a flashcard at index \<open>i\<close> that is manual
  with a \<open>generation_id\<close>, or AI-sourced without one, fails validation with an issue at the
  path \<open>flashcards.i.generation_id\<close>, and the handler answers 400 without an insert. So
  every row that the handler hands to the store satisfies the invariant.
\<close>

theorem flashcard_source_invariant_enforced:
  "(\<forall>valid. safeParse flashcardsCreateCommandSchema (\<lambda>c. map strip (command_flashcards c)) command
              = Success valid \<longrightarrow>
        (\<forall>f. f \<in> set (command_flashcards command) \<longrightarrow> source_consistent f))
   \<and> (\<forall>i. i < length (command_flashcards command)
            \<and> violates_invariant (command_flashcards command ! i) \<longrightarrow>
        (\<exists>errors.
            safeParse flashcardsCreateCommandSchema (\<lambda>c. map strip (command_flashcards c)) command
              = Failure errors
          \<and> ([Key ''flashcards'', Index i, Key ''generation_id''], refinement_message) \<in> set errors
          \<and> POST_flashcards ins (Some userId) (Body command)
              = ((400, Error_body ''Validation Error'' ''Invalid request data''
                         (Some (details errors))), [])
          \<and> (''flashcards.'' @ string_of_nat i @ ''.generation_id'', refinement_message)
              \<in> set (details errors)))
   \<and> (\<forall>batch row. batch \<in> set (snd (POST_flashcards ins locals_user (Body command)))
                    \<and> row \<in> set batch \<longrightarrow> source_consistent row)"
proof (intro conjI allI impI)
  fix valid f
  assume "safeParse flashcardsCreateCommandSchema (\<lambda>c. map strip (command_flashcards c)) command
              = Success valid"
    and "f \<in> set (command_flashcards command)"
  then show "source_consistent f"
    using command_schema_empty [of command] by (auto simp: safeParse_def split: if_splits)
next
  fix i
  assume a: "i < length (command_flashcards command)
            \<and> violates_invariant (command_flashcards command ! i)"
  define errors where "errors = flashcardsCreateCommandSchema command"
  have m: "([Key ''flashcards'', Index i, Key ''generation_id''], refinement_message) \<in> set errors"
    using a command_schema_violation [of i command] by (simp add: errors_def)
  then have ne: "errors \<noteq> []" by auto
  have sp: "safeParse flashcardsCreateCommandSchema (\<lambda>c. map strip (command_flashcards c)) command
              = Failure errors"
    using ne by (simp add: safeParse_def errors_def)
  have post: "POST_flashcards ins (Some userId) (Body command)
              = ((400, Error_body ''Validation Error'' ''Invalid request data''
                         (Some (details errors))), [])"
    by (simp add: POST_flashcards_def sp)
  have d: "(''flashcards.'' @ string_of_nat i @ ''.generation_id'', refinement_message)
              \<in> set (details errors)"
    using details_path [OF m] by simp
  show "\<exists>errors.
            safeParse flashcardsCreateCommandSchema (\<lambda>c. map strip (command_flashcards c)) command
              = Failure errors
          \<and> ([Key ''flashcards'', Index i, Key ''generation_id''], refinement_message) \<in> set errors
          \<and> POST_flashcards ins (Some userId) (Body command)
              = ((400, Error_body ''Validation Error'' ''Invalid request data''
                         (Some (details errors))), [])
          \<and> (''flashcards.'' @ string_of_nat i @ ''.generation_id'', refinement_message)
              \<in> set (details errors)"
    using sp m post d by blast
next
  fix batch row
  assume b: "batch \<in> set (snd (POST_flashcards ins locals_user (Body command))) \<and> row \<in> set batch"
  show "source_consistent row"
  proof (cases "flashcardsCreateCommandSchema command = []")
    case False
    then have "snd (POST_flashcards ins locals_user (Body command)) = []"
      by (simp add: POST_flashcards_def safeParse_def split: option.splits)
    with b show ?thesis by simp
  next
    case True
    then have ok: "\<forall>f \<in> set (command_flashcards command). source_consistent f"
      by (rule command_schema_empty)
    obtain uid where uid: "locals_user = Some uid" using b
      by (cases locals_user) (auto simp: POST_flashcards_def)
    have "snd (POST_flashcards ins locals_user (Body command))
            = snd (createFlashcards ins (map strip (command_flashcards command)) uid)"
      using True uid
      by (simp add: POST_flashcards_def safeParse_def split: prod.splits sum.splits)
    with b have "batch = map (\<lambda>flashcard.
                      \<lparr> card_front = card_front flashcard, card_back = card_back flashcard,
                        source = source flashcard, generation_id = generation_id flashcard,
                        user_id = uid \<rparr>) (map strip (command_flashcards command))"
      using createFlashcards_rows [of batch ins "map strip (command_flashcards command)" uid]
      by simp
    with b obtain f where "f \<in> set (command_flashcards command)"
      and "row = \<lparr> card_front = card_front (strip f), card_back = card_back (strip f),
                        source = source (strip f), generation_id = generation_id (strip f),
                        user_id = uid \<rparr>"
      by auto
    with ok show ?thesis by (auto simp: source_consistent_def strip_def)
  qed
qed

theorem flashcard_source_invariant_enforced_witness:
  "(1::nat) < length (command_flashcards inconsistent_command)
   \<and> violates_invariant (command_flashcards inconsistent_command ! 1)
   \<and> POST_flashcards example_store (Some ''alice'') (Body inconsistent_command)
       = ((400, Error_body ''Validation Error'' ''Invalid request data''
                  (Some [(''flashcards.1.generation_id'', refinement_message)])), [])"
proof -
  have l: "(1::nat) < length (command_flashcards inconsistent_command)"
    by (simp add: inconsistent_command_def)
  have v: "violates_invariant (command_flashcards inconsistent_command ! 1)"
    by (simp add: inconsistent_command_def violates_invariant_def)
  have e: "flashcardsCreateCommandSchema inconsistent_command
             = [([Key ''flashcards'', Index 1, Key ''generation_id''], refinement_message)]"
    by (simp add: flashcardsCreateCommandSchema_def inconsistent_command_def
        flashcardCreateDtoSchema_def refinement_def refinement_message_def)
  have d: "details [([Key ''flashcards'', Index 1, Key ''generation_id''], refinement_message)]
         = [(''flashcards.1.generation_id'', refinement_message)]"
    by (simp add: details_def string_of_nat.simps)
  from flashcard_source_invariant_enforced [of inconsistent_command example_store "''alice''"] l v
  obtain errors where
    "safeParse flashcardsCreateCommandSchema (\<lambda>c. map strip (command_flashcards c))
        inconsistent_command = Failure errors"
    "POST_flashcards example_store (Some ''alice'') (Body inconsistent_command)
              = ((400, Error_body ''Validation Error'' ''Invalid request data''
                         (Some (details errors))), [])"
    by blast
  then have "POST_flashcards example_store (Some ''alice'') (Body inconsistent_command)
       = ((400, Error_body ''Validation Error'' ''Invalid request data''
                  (Some [(''flashcards.1.generation_id'', refinement_message)])), [])"
    using e d by (simp add: safeParse_def split: if_splits)
  with l v show ?thesis by simp
qed

end
